theory Spec2Isabelle
  imports Complex_Main
begin

section \<open>Geofencing: the Haversine distance\<close>

text \<open>
  Embedding of \<^verbatim>\<open>ResolutionService.calculate_distance\<close>
  (\<^verbatim>\<open>backend/services/resolution_service.py\<close>). Python floats are idealised as
  real numbers; the one non-finite value the function produces, \<^verbatim>\<open>float('inf')\<close>,
  is the constructor \<open>Infinite\<close>. The body's \<^verbatim>\<open>except Exception\<close> branch is
  unreachable on numbers: the argument of \<^verbatim>\<open>asin\<close> is clamped to the unit interval.
\<close>

datatype distance = Meters real | Infinite

definition radians :: "real \<Rightarrow> real" where
  "radians x = x * (pi / 180)"

definition earth_radius :: real where
  "earth_radius = 6371000"

definition calculate_distance :: "real \<Rightarrow> real \<Rightarrow> real \<Rightarrow> real \<Rightarrow> distance" where
  "calculate_distance lat1 lon1 lat2 lon2 =
     (if \<not> (-90 \<le> lat1 \<and> lat1 \<le> 90) \<or> \<not> (-90 \<le> lat2 \<and> lat2 \<le> 90) then Infinite
      else if \<not> (-180 \<le> lon1 \<and> lon1 \<le> 180) \<or> \<not> (-180 \<le> lon2 \<and> lon2 \<le> 180) then Infinite
      else
        let lat1_rad = radians lat1;
            lon1_rad = radians lon1;
            lat2_rad = radians lat2;
            lon2_rad = radians lon2;
            dlat = lat2_rad - lat1_rad;
            dlon = lon2_rad - lon1_rad;
            a = (sin (dlat / 2))\<^sup>2 + cos lat1_rad * cos lat2_rad * (sin (dlon / 2))\<^sup>2;
            a' = (if a > 1 then 1 else if a < 0 then 0 else a);
            c = 2 * arcsin (sqrt a')
        in Meters (earth_radius * c))"

text \<open>The comparisons the callers make on a distance: \<^verbatim>\<open>d <= 30.0\<close> and
  \<^verbatim>\<open>d < nearest_distance\<close>, with \<^verbatim>\<open>inf\<close> above every number and not below itself.\<close>

definition dist_le :: "distance \<Rightarrow> real \<Rightarrow> bool" where
  "dist_le d x = (case d of Meters m \<Rightarrow> m \<le> x | Infinite \<Rightarrow> False)"

definition dist_less :: "distance \<Rightarrow> distance \<Rightarrow> bool" where
  "dist_less d e =
     (case d of
        Infinite \<Rightarrow> False
      | Meters m \<Rightarrow> (case e of Infinite \<Rightarrow> True | Meters n \<Rightarrow> m < n))"

section \<open>Strings\<close>

text \<open>
  \<^verbatim>\<open>str.strip()\<close> and \<^verbatim>\<open>str.lower()\<close> are functions of the Python runtime, defined on
  all of Unicode. The model does not redefine them: the handler that calls them receives
  them as the fields \<open>str_strip\<close> and \<open>str_lower\<close> of its environment, and every general
  statement holds for whatever functions stand there.

  The two functions below are their restrictions to ASCII strings, where they agree with
  Python: the whitespace characters are the ASCII characters that \<^verbatim>\<open>str.isspace\<close> accepts,
  and lowering maps the letters A to Z. Only the sample environment uses them, on ASCII
  inputs.
\<close>

definition py_whitespace :: "char list" where
  "py_whitespace = [CHR '' '', CHR 0x09, CHR 0x0A, CHR 0x0B, CHR 0x0C, CHR 0x0D,
                    CHR 0x1C, CHR 0x1D, CHR 0x1E, CHR 0x1F]"

definition is_space :: "char \<Rightarrow> bool" where
  "is_space c = (c \<in> set py_whitespace)"

definition ascii_strip :: "string \<Rightarrow> string" where
  "ascii_strip s = rev (dropWhile is_space (rev (dropWhile is_space s)))"

definition lower_char :: "char \<Rightarrow> char" where
  "lower_char c =
     (case map_of (zip ''ABCDEFGHIJKLMNOPQRSTUVWXYZ'' ''abcdefghijklmnopqrstuvwxyz'') c of
        Some d \<Rightarrow> d
      | None \<Rightarrow> c)"

definition ascii_lower :: "string \<Rightarrow> string" where
  "ascii_lower s = map lower_char s"

definition startswith :: "string \<Rightarrow> string \<Rightarrow> bool" where
  "startswith s p = (take (length p) s = p)"

text \<open>\<^verbatim>\<open>list.index\<close>: the position of the first occurrence; \<open>None\<close> stands for the
  \<^verbatim>\<open>ValueError\<close> whose message reads \<^verbatim>\<open>... is not in list\<close>.\<close>

fun list_index :: "'a list \<Rightarrow> 'a \<Rightarrow> nat option" where
  "list_index [] x = None"
| "list_index (y # ys) x = (if y = x then Some 0 else map_option Suc (list_index ys x))"

section \<open>Data model\<close>

type_synonym timestamp = nat

text \<open>The outcome of a call into a collaborator (file system, image library, database
  driver, AI service): it raises, or it returns a value.\<close>

datatype 'a outcome = Raised | Returned 'a

text \<open>Notes of a status change: free text, or the text
  \<^verbatim>\<open>f"Resolved with geo-verified evidence. Distance: {distance:.2f}m"\<close> that
  \<^verbatim>\<open>resolve_report\<close> builds, kept with its distance.\<close>

datatype remark = Text string | GeoVerified distance

text \<open>The JSON document stored in \<^verbatim>\<open>Report.resolution_coordinates\<close>.\<close>

record resolution_coords =
  latitude_rc :: real
  longitude_rc :: real
  distance_from_original_meters :: distance
  coordinate_source :: string

text \<open>One entry of the JSON list stored in \<^verbatim>\<open>Report.status_history\<close>.\<close>

record history_json =
  status_j :: string
  changed_by_j :: string
  changed_at_j :: timestamp
  notes_j :: "remark option"

text \<open>The \<^verbatim>\<open>Report\<close> row, with the columns the lifecycle code reads or writes.\<close>

record report =
  id_report :: nat
  title :: string
  description :: "string option"
  category :: string
  image_url :: "string option"
  latitude :: real
  longitude :: real
  ai_generated_title :: "string option"
  ai_generated_description :: "string option"
  ai_tags :: "string option"
  mcq_responses :: "string option"
  urgency_score :: int
  urgency_label :: string
  reporter_id :: string
  status :: string
  admin_notes :: "string option"
  status_history :: "history_json list option"
  is_deleted :: bool
  deletion_reason :: "string option"
  deleted_at :: "timestamp option"
  resolved_by :: "string option"
  resolved_at :: "timestamp option"
  resolution_image_url :: "string option"
  resolution_coordinates :: "resolution_coords option"
  reported_at :: timestamp
  acknowledged_at :: "timestamp option"
  in_progress_at :: "timestamp option"

text \<open>The \<^verbatim>\<open>ReportStatusHistory\<close>, \<^verbatim>\<open>AdminVerification\<close> and
  \<^verbatim>\<open>FaceVerification\<close> rows.\<close>

record report_status_history =
  report_id_h :: nat
  status_h :: string
  changed_by_h :: string
  changed_at_h :: timestamp
  notes_h :: "remark option"

record admin_verification =
  report_id_av :: nat
  admin_id_av :: string
  verification_image_url :: string

record face_verification =
  report_id_fv :: nat
  admin_id_fv :: "string option"
  face_verified :: bool
  verified_at :: timestamp

text \<open>
  The database: the tables, in row order, and the next primary key of \<^verbatim>\<open>reports\<close>.
  A SQLAlchemy session is modelled by two copies: \<open>committed\<close> is what every other caller
  sees, \<open>session\<close> is the working copy the handler reads and mutates. \<^verbatim>\<open>db.commit()\<close>
  publishes the working copy, \<^verbatim>\<open>db.rollback()\<close> discards it.
\<close>

record store =
  reports :: "report list"
  status_history_rows :: "report_status_history list"
  admin_verifications :: "admin_verification list"
  face_verifications :: "face_verification list"
  report_upvotes :: "nat list"
  report_comments :: "nat list"
  next_report_id :: nat

record db =
  committed :: store
  session :: store

definition commit :: "db \<Rightarrow> db" where
  "commit d = d\<lparr>committed := session d\<rparr>"

definition rollback :: "db \<Rightarrow> db" where
  "rollback d = d\<lparr>session := committed d\<rparr>"

definition get_report :: "store \<Rightarrow> nat \<Rightarrow> report option" where
  "get_report s i = find (\<lambda>r. id_report r = i) (reports s)"

definition put_report :: "report \<Rightarrow> store \<Rightarrow> store" where
  "put_report r s =
     s\<lparr>reports := map (\<lambda>x. if id_report x = id_report r then r else x) (reports s)\<rparr>"

section \<open>Status lifecycle\<close>

text \<open>
  Embedding of \<^verbatim>\<open>StatusService\<close> (\<^verbatim>\<open>backend/services/status_service.py\<close>). Every
  error of \<^verbatim>\<open>update_report_status\<close> is a \<^verbatim>\<open>ValueError\<close> told apart by its message;
  the constructors name the messages (in the specification's words: \<open>CannotSkipStages\<close> is
  SkippedStageError, \<open>ResolvedLocked\<close> is LockedAfterResolutionError).
\<close>

datatype status_error =
    InvalidStatus string
  | ReportNotFound nat
  | ResolvedLocked
  | CannotSkipStages string string
  | ResolutionRequiresEvidence
  | DatabaseError

text \<open>The two dictionaries the service returns: "Status is already ..." with the report id
  and status, and the update record with report id, old status, new status, actor, time and
  notes.\<close>

datatype status_result =
    AlreadyInStatus nat string
  | StatusUpdated nat string string string timestamp "remark option"

definition valid_statuses :: "string list" where
  "valid_statuses = [''reported'', ''acknowledged'', ''in_progress'', ''resolved'']"

text \<open>The inner \<^verbatim>\<open>try\<close> block: both indices are looked up; a status that is not in the
  list raises "not in list", which the handler logs and lets pass.\<close>

definition validate_lifecycle :: "string \<Rightarrow> string \<Rightarrow> status_error + unit" where
  "validate_lifecycle current new_status =
     (case list_index valid_statuses current of
        None \<Rightarrow> Inr ()
      | Some current_status_index \<Rightarrow>
          (case list_index valid_statuses new_status of
             None \<Rightarrow> Inr ()
           | Some new_status_index \<Rightarrow>
               if new_status_index > current_status_index + 1
               then Inl (CannotSkipStages current new_status)
               else Inr ()))"

definition update_status_history_json ::
  "report \<Rightarrow> string \<Rightarrow> string \<Rightarrow> timestamp \<Rightarrow> remark option \<Rightarrow> report" where
  "update_status_history_json r new_status changed_by now notes =
     (let history = (case status_history r of None \<Rightarrow> [] | Some h \<Rightarrow> h)
      in r\<lparr>status_history :=
             Some (history @ [\<lparr>status_j = new_status, changed_by_j = changed_by,
                               changed_at_j = now, notes_j = notes\<rparr>])\<rparr>)"

definition stamp :: "string \<Rightarrow> timestamp \<Rightarrow> report \<Rightarrow> report" where
  "stamp new_status now r =
     (if new_status = ''acknowledged'' then r\<lparr>acknowledged_at := Some now\<rparr>
      else if new_status = ''in_progress'' then r\<lparr>in_progress_at := Some now\<rparr>
      else if new_status = ''resolved'' then r\<lparr>resolved_at := Some now\<rparr>
      else r)"

definition add_history :: "report_status_history \<Rightarrow> store \<Rightarrow> store" where
  "add_history h s = s\<lparr>status_history_rows := status_history_rows s @ [h]\<rparr>"

text \<open>\<open>commit_ok\<close> tells whether \<^verbatim>\<open>db.commit()\<close> succeeds; \<open>now\<close> is the database
  clock behind \<^verbatim>\<open>func.now()\<close>. Every raise passes through the handler that rolls the
  session back.\<close>

definition update_report_status ::
  "bool \<Rightarrow> timestamp \<Rightarrow> db \<Rightarrow> nat \<Rightarrow> string \<Rightarrow> string \<Rightarrow> remark option
     \<Rightarrow> (status_error + status_result) \<times> db" where
  "update_report_status commit_ok now d report_id new_status changed_by notes =
     (if new_status \<notin> set valid_statuses then (Inl (InvalidStatus new_status), rollback d)
      else
       (case get_report (session d) report_id of
          None \<Rightarrow> (Inl (ReportNotFound report_id), rollback d)
        | Some r \<Rightarrow>
           (if status r = new_status then (Inr (AlreadyInStatus report_id new_status), d)
            else if status r = ''resolved'' \<and> new_status \<noteq> ''resolved''
            then (Inl ResolvedLocked, rollback d)
            else
             (case validate_lifecycle (status r) new_status of
                Inl e \<Rightarrow> (Inl e, rollback d)
              | Inr _ \<Rightarrow>
                 (if new_status = ''resolved'' \<and> status r \<noteq> ''resolved''
                  then (Inl ResolutionRequiresEvidence, rollback d)
                  else
                    let old_status = status r;
                        r1 = stamp new_status now (r\<lparr>status := new_status\<rparr>);
                        row = \<lparr>report_id_h = report_id, status_h = new_status,
                               changed_by_h = changed_by, changed_at_h = now, notes_h = notes\<rparr>;
                        r2 = update_status_history_json r1 new_status changed_by now notes;
                        d1 = d\<lparr>session := add_history row (put_report r2 (session d))\<rparr>
                    in if commit_ok
                       then (Inr (StatusUpdated report_id old_status new_status changed_by now notes),
                             commit d1)
                       else (Inl DatabaseError, rollback d1))))))"

text \<open>\<^verbatim>\<open>notes or "Report resolved with geo-verified evidence"\<close>: an absent or empty
  note is replaced.\<close>

definition notes_or_default :: "remark option \<Rightarrow> remark" where
  "notes_or_default notes =
     (case notes of
        None \<Rightarrow> Text ''Report resolved with geo-verified evidence''
      | Some (Text t) \<Rightarrow> (if t = [] then Text ''Report resolved with geo-verified evidence'' else Text t)
      | Some n \<Rightarrow> n)"

definition resolve_report_with_evidence ::
  "bool \<Rightarrow> timestamp \<Rightarrow> db \<Rightarrow> nat \<Rightarrow> string \<Rightarrow> remark option
     \<Rightarrow> (status_error + status_result) \<times> db" where
  "resolve_report_with_evidence commit_ok now d report_id changed_by notes =
     (case get_report (session d) report_id of
        None \<Rightarrow> (Inl (ReportNotFound report_id), rollback d)
      | Some r \<Rightarrow>
         (if status r = ''resolved'' then (Inr (AlreadyInStatus report_id ''resolved''), d)
          else
            let old_status = status r;
                r1 = r\<lparr>status := ''resolved'', resolved_at := Some now\<rparr>;
                row = \<lparr>report_id_h = report_id, status_h = ''resolved'',
                       changed_by_h = changed_by, changed_at_h = now,
                       notes_h = Some (notes_or_default notes)\<rparr>;
                r2 = update_status_history_json r1 ''resolved'' changed_by now notes;
                d1 = d\<lparr>session := add_history row (put_report r2 (session d))\<rparr>
            in if commit_ok
               then (Inr (StatusUpdated report_id old_status ''resolved'' changed_by now notes),
                     commit d1)
               else (Inl DatabaseError, rollback d1)))"

section \<open>Storage\<close>

text \<open>
  Embedding of \<^verbatim>\<open>StorageService\<close> (\<^verbatim>\<open>backend/services/storage_service.py\<close>). The
  argument is the outcome of writing the file under its generated name: the URL on success.
  Neither function raises: a failed write yields the placeholder URL, respectively the
  empty string.
\<close>

definition upload_image_to_storage :: "string outcome \<Rightarrow> string" where
  "upload_image_to_storage w =
     (case w of Returned file_url \<Rightarrow> file_url | Raised \<Rightarrow> ''https://placeholder.com/image.jpg'')"

definition upload_admin_verification_image :: "string outcome \<Rightarrow> string" where
  "upload_admin_verification_image w = (case w of Returned u \<Rightarrow> u | Raised \<Rightarrow> [])"

section \<open>Resolution with geo-verified evidence\<close>

text \<open>
  Embedding of \<^verbatim>\<open>ResolutionService.verify_resolution_location\<close> and
  \<^verbatim>\<open>ResolutionService.resolve_report\<close>. The responses of the collaborators are
  gathered in \<open>resolve_env\<close>; every \<^verbatim>\<open>HTTPException\<close> carries its status code and
  its detail.
\<close>

definition max_distance_meters :: real where
  "max_distance_meters = 30"

definition verify_resolution_location :: "real \<Rightarrow> real \<Rightarrow> real \<Rightarrow> real \<Rightarrow> bool \<times> distance" where
  "verify_resolution_location original_lat original_lon resolution_lat resolution_lon =
     (let distance = calculate_distance original_lat original_lon resolution_lat resolution_lon;
          is_valid = dist_le distance max_distance_meters
      in (is_valid, distance))"

datatype detail =
    ReportNotFoundDetail
  | ReportAlreadyResolved
  | FaceVerificationRequired
  | EvidenceMustIncludeExifGps
  | EvidenceLocationTooFar distance real
  | InternalErrorResolving
  | FileMustBeImage
  | FileSizeTooLarge
  | GpsCoordinatesRequired
  | InternalErrorCreating
  | NotFoundOrAccessDenied
  | AlreadyDeleted
  | InternalErrorDeleting

datatype http_exception = HTTPException nat detail

text \<open>\<^verbatim>\<open>round(distance, 2)\<close>: to the nearest hundredth, a tie going to the even one.\<close>

definition round_half_even :: "real \<Rightarrow> int" where
  "round_half_even x =
     (let f = \<lfloor>x\<rfloor>
      in if x - of_int f < 1 / 2 then f
         else if x - of_int f > 1 / 2 then f + 1
         else if even f then f else f + 1)"

definition round2 :: "distance \<Rightarrow> distance" where
  "round2 d =
     (case d of Meters m \<Rightarrow> Meters (of_int (round_half_even (m * 100)) / 100) | Infinite \<Rightarrow> Infinite)"

record resolve_env =
  face_verification_required :: bool
  face_query_raises :: bool
  resolution_exif :: "(real \<times> real) option outcome"
  resolution_image_write :: "string outcome"
  admin_verification_image :: "string outcome option"
  status_commit_ok :: bool
  final_commit_ok :: bool
  now_r :: timestamp

record resolution_result =
  report_id_res :: nat
  resolution_coordinates_res :: resolution_coords
  distance_meters :: distance
  resolution_image_url_res :: string
  status_update_res :: status_result
  admin_id_res :: string
  admin_verification_image_url :: "string option"

text \<open>The newest verified face check of this admin for this report, if any; a query that
  raises counts as none.\<close>

definition latest_face_verification :: "resolve_env \<Rightarrow> store \<Rightarrow> nat \<Rightarrow> string \<Rightarrow> face_verification option" where
  "latest_face_verification env s report_id admin_id =
     (if face_query_raises env then None
      else
        (case filter (\<lambda>f. report_id_fv f = report_id \<and> admin_id_fv f = Some admin_id \<and> face_verified f)
                (face_verifications s) of
           [] \<Rightarrow> None
         | f # fs \<Rightarrow> Some (fold (\<lambda>x best. if verified_at x > verified_at best then x else best) fs f)))"

definition gps_data_of :: "(real \<times> real) option outcome \<Rightarrow> (real \<times> real) option" where
  "gps_data_of x = (case x of Raised \<Rightarrow> None | Returned g \<Rightarrow> g)"

definition resolve_report ::
  "resolve_env \<Rightarrow> db \<Rightarrow> nat \<Rightarrow> string \<Rightarrow> string option \<Rightarrow> real option \<Rightarrow> real option
     \<Rightarrow> (http_exception + resolution_result) \<times> db" where
  "resolve_report env d report_id admin_id admin_notes_arg provided_lat provided_lon =
     (case get_report (session d) report_id of
        None \<Rightarrow> (Inl (HTTPException 404 ReportNotFoundDetail), d)
      | Some r \<Rightarrow>
         (if status r = ''resolved'' then (Inl (HTTPException 400 ReportAlreadyResolved), d)
          else if face_verification_required env
                  \<and> latest_face_verification env (session d) report_id admin_id = None
          then (Inl (HTTPException 403 FaceVerificationRequired), d)
          else
           (case gps_data_of (resolution_exif env) of
              None \<Rightarrow> (Inl (HTTPException 400 EvidenceMustIncludeExifGps), d)
            | Some (resolution_lat, resolution_lon) \<Rightarrow>
               (case verify_resolution_location (latitude r) (longitude r) resolution_lat resolution_lon of
                  (is_location_valid, distance) \<Rightarrow>
                   (if \<not> is_location_valid
                    then (Inl (HTTPException 400 (EvidenceLocationTooFar distance max_distance_meters)), d)
                    else
                      let resolution_image_url_v = upload_image_to_storage (resolution_image_write env);
                          resolution_coords_v =
                            \<lparr>latitude_rc = resolution_lat, longitude_rc = resolution_lon,
                             distance_from_original_meters = round2 distance,
                             coordinate_source = ''EXIF from image''\<rparr>
                      in
                       (case resolve_report_with_evidence (status_commit_ok env) (now_r env) d
                               report_id admin_id (Some (GeoVerified distance)) of
                          (Inl e, d1) \<Rightarrow> (Inl (HTTPException 500 InternalErrorResolving), rollback d1)
                        | (Inr status_update_v, d1) \<Rightarrow>
                           (case get_report (session d1) report_id of
                              None \<Rightarrow> (Inl (HTTPException 500 InternalErrorResolving), rollback d1)
                            | Some r1 \<Rightarrow>
                                let r2 = r1\<lparr>resolved_by := Some admin_id,
                                            resolved_at := Some (now_r env),
                                            resolution_image_url := Some resolution_image_url_v,
                                            resolution_coordinates := Some resolution_coords_v,
                                            admin_notes := admin_notes_arg\<rparr>;
                                    s2 = put_report r2 (session d1);
                                    admin_verification_url =
                                      map_option upload_admin_verification_image (admin_verification_image env);
                                    s3 = (case admin_verification_url of
                                            None \<Rightarrow> s2
                                          | Some u \<Rightarrow>
                                              if u \<noteq> []
                                              then s2\<lparr>admin_verifications := admin_verifications s2 @
                                                        [\<lparr>report_id_av = report_id, admin_id_av = admin_id,
                                                          verification_image_url = u\<rparr>]\<rparr>
                                              else s2);
                                    d3 = d1\<lparr>session := s3\<rparr>
                                in if final_commit_ok env
                                   then (Inr \<lparr>report_id_res = report_id,
                                               resolution_coordinates_res = resolution_coords_v,
                                               distance_meters = round2 distance,
                                               resolution_image_url_res = resolution_image_url_v,
                                               status_update_res = status_update_v,
                                               admin_id_res = admin_id,
                                               admin_verification_image_url = admin_verification_url\<rparr>,
                                         commit d3)
                                   else (Inl (HTTPException 500 InternalErrorResolving), rollback d3))))))))"

text \<open>After a successful \<^verbatim>\<open>resolve_report_with_evidence\<close> the handler goes on writing to
  the \<^verbatim>\<open>report\<close> object it loaded first, which is the session's row of that id: the
  second lookup above stands for it.\<close>

section \<open>Report creation and duplicate detection\<close>

text \<open>
  Embedding of \<^verbatim>\<open>create_report\<close> (\<^verbatim>\<open>backend/services/report_service.py\<close>) and of
  the handler \<^verbatim>\<open>create_issue_report\<close> (\<^verbatim>\<open>backend/main.py\<close>).
\<close>

record report_create =
  title_in :: string
  description_in :: "string option"
  category_in :: string
  image_url_in :: "string option"
  latitude_in :: real
  longitude_in :: real

text \<open>The field constraints of the \<^verbatim>\<open>ReportCreate\<close> schema.\<close>

definition report_create_valid :: "report_create \<Rightarrow> bool" where
  "report_create_valid c =
     (1 \<le> length (title_in c) \<and> length (title_in c) \<le> 255
      \<and> 1 \<le> length (category_in c) \<and> length (category_in c) \<le> 100
      \<and> -90 \<le> latitude_in c \<and> latitude_in c \<le> 90
      \<and> -180 \<le> longitude_in c \<and> longitude_in c \<le> 180)"

definition create_report ::
  "bool \<Rightarrow> timestamp \<Rightarrow> db \<Rightarrow> report_create \<Rightarrow> string \<Rightarrow> string option \<Rightarrow> string option
     \<Rightarrow> string option \<Rightarrow> string \<Rightarrow> string \<Rightarrow> report outcome \<times> db" where
  "create_report commit_ok now d report_data ai_title ai_description ai_tags_v mcq_json reporter uuid4 =
     (let db_report =
            \<lparr>id_report = next_report_id (session d),
             title = title_in report_data,
             description = description_in report_data,
             category = category_in report_data,
             image_url = image_url_in report_data,
             latitude = latitude_in report_data,
             longitude = longitude_in report_data,
             ai_generated_title = Some ai_title,
             ai_generated_description = ai_description,
             ai_tags = ai_tags_v,
             mcq_responses = mcq_json,
             urgency_score = 50,
             urgency_label = ''Medium'',
             reporter_id = (if reporter \<noteq> [] then reporter else uuid4),
             status = ''pending'',
             admin_notes = None,
             status_history = None,
             is_deleted = False,
             deletion_reason = None,
             deleted_at = None,
             resolved_by = None,
             resolved_at = None,
             resolution_image_url = None,
             resolution_coordinates = None,
             reported_at = now,
             acknowledged_at = None,
             in_progress_at = None\<rparr>;
          d1 = d\<lparr>session := (session d)\<lparr>reports := reports (session d) @ [db_report],
                                          next_report_id := Suc (next_report_id (session d))\<rparr>\<rparr>
      in if commit_ok then (Returned db_report, commit d1) else (Raised, rollback d1))"

record create_form =
  title_form :: string
  description_form :: "string option"
  category_form :: string
  image_content_type :: "string option"
  image_size :: nat
  latitude_form :: "real option"
  longitude_form :: "real option"

text \<open>The environment of the handler: the answers of its collaborators, the clock, the
  caller, and the runtime's \<^verbatim>\<open>str.strip\<close> and \<^verbatim>\<open>str.lower\<close>.\<close>

record create_env =
  image_exif :: "(real \<times> real) option outcome"
  scan_query_raises :: bool
  count_query_raises :: bool
  image_write :: "string outcome"
  mcq_data :: "string option"
  ai_summary :: "(string \<times> string option \<times> string option) outcome"
  ai_classification :: "(int \<times> string) outcome"
  create_commit_ok :: bool
  urgency_commit_ok :: bool
  now_c :: timestamp
  current_user_id :: string
  fresh_uuid :: string
  str_strip :: "string \<Rightarrow> string"
  str_lower :: "string \<Rightarrow> string"

datatype log_event =
    ExifExtractionFailed
  | DuplicateDetectionFailed
  | AiSummaryFailed
  | UrgencyClassificationFailed
  | ErrorCreatingReport

text \<open>The summary of the existing report: id, title, category, status, latitude, longitude,
  upvotes, comments. The data of a created report: id, title, status, latitude, longitude.\<close>

datatype create_response =
    Duplicate nat string string string real real nat nat
  | Created nat string string real real

definition active_statuses :: "string list" where
  "active_statuses = [''reported'', ''acknowledged'', ''in_progress'']"

definition active_candidates :: "store \<Rightarrow> report list" where
  "active_candidates s =
     filter (\<lambda>r. is_deleted r = False \<and> status r \<in> set active_statuses) (reports s)"

definition normalize_category :: "create_env \<Rightarrow> string \<Rightarrow> string" where
  "normalize_category env c = str_lower env (str_strip env c)"

text \<open>The loop over the candidates, with \<^verbatim>\<open>nearest\<close> and \<^verbatim>\<open>nearest_distance\<close> as the
  accumulator.\<close>

fun scan_candidates ::
  "create_env \<Rightarrow> string \<Rightarrow> real \<Rightarrow> real \<Rightarrow> report list \<Rightarrow> report option \<times> distance \<Rightarrow> report option \<times> distance" where
  "scan_candidates env normalized_new_cat final_latitude final_longitude [] acc = acc"
| "scan_candidates env normalized_new_cat final_latitude final_longitude (r # rs) (nearest, nearest_distance) =
     (if normalize_category env (category r) \<noteq> normalized_new_cat
      then scan_candidates env normalized_new_cat final_latitude final_longitude rs (nearest, nearest_distance)
      else
        let d = calculate_distance (latitude r) (longitude r) final_latitude final_longitude
        in if dist_le d 30 \<and> dist_less d nearest_distance
           then scan_candidates env normalized_new_cat final_latitude final_longitude rs (Some r, d)
           else scan_candidates env normalized_new_cat final_latitude final_longitude rs (nearest, nearest_distance))"

definition find_nearest :: "create_env \<Rightarrow> store \<Rightarrow> string \<Rightarrow> real \<Rightarrow> real \<Rightarrow> report option" where
  "find_nearest env s category_v final_latitude final_longitude =
     fst (scan_candidates env (normalize_category env category_v) final_latitude final_longitude
            (active_candidates s) (None, Infinite))"

definition count_rows :: "nat list \<Rightarrow> nat \<Rightarrow> nat" where
  "count_rows rows report_id = length (filter (\<lambda>i. i = report_id) rows)"

text \<open>The guarded duplicate block: it returns the summary of the nearest duplicate, returns
  nothing, or raises (the candidate query or a count query fails).\<close>

definition duplicate_check ::
  "create_env \<Rightarrow> store \<Rightarrow> string \<Rightarrow> real \<Rightarrow> real \<Rightarrow> create_response option outcome" where
  "duplicate_check env s category_v final_latitude final_longitude =
     (if scan_query_raises env then Raised
      else
        (case find_nearest env s category_v final_latitude final_longitude of
           None \<Rightarrow> Returned None
         | Some nearest \<Rightarrow>
             if count_query_raises env then Raised
             else Returned (Some (Duplicate (id_report nearest) (title nearest) (category nearest)
                                    (status nearest) (latitude nearest) (longitude nearest)
                                    (count_rows (report_upvotes s) (id_report nearest))
                                    (count_rows (report_comments s) (id_report nearest))))))"

text \<open>Everything after the duplicate block: upload, AI summary, the insert, the urgency
  classification and the response. The log events are returned in the order they are
  written.\<close>

definition summary_fields ::
  "create_env \<Rightarrow> create_form \<Rightarrow> string \<times> string option \<times> string option \<times> log_event list" where
  "summary_fields env form =
     (case ai_summary env of
        Returned (t, ds, tags) \<Rightarrow> (t, ds, tags, [])
      | Raised \<Rightarrow> (title_form form, description_form form, None, [AiSummaryFailed]))"

definition report_data_of :: "create_env \<Rightarrow> create_form \<Rightarrow> real \<Rightarrow> real \<Rightarrow> report_create" where
  "report_data_of env form final_latitude final_longitude =
     (case summary_fields env form of
        (ai_title, ai_description, ai_tags_v, log1) \<Rightarrow>
          \<lparr>title_in = ai_title, description_in = ai_description,
           category_in = category_form form,
           image_url_in = Some (upload_image_to_storage (image_write env)),
           latitude_in = final_latitude, longitude_in = final_longitude\<rparr>)"

definition continue_creation ::
  "create_env \<Rightarrow> db \<Rightarrow> create_form \<Rightarrow> real \<Rightarrow> real
     \<Rightarrow> (http_exception + create_response) \<times> db \<times> log_event list" where
  "continue_creation env d form final_latitude final_longitude =
     (case summary_fields env form of
        (ai_title, ai_description, ai_tags_v, log1) \<Rightarrow>
          let report_data = report_data_of env form final_latitude final_longitude
          in if \<not> report_create_valid report_data
             then (Inl (HTTPException 500 InternalErrorCreating), d, log1 @ [ErrorCreatingReport])
             else
              (case create_report (create_commit_ok env) (now_c env) d report_data ai_title ai_description
                      ai_tags_v (mcq_data env) (current_user_id env) (fresh_uuid env) of
                 (Raised, d1) \<Rightarrow>
                   (Inl (HTTPException 500 InternalErrorCreating), d1, log1 @ [ErrorCreatingReport])
               | (Returned r, d1) \<Rightarrow>
                  (case ai_classification env of
                     Raised \<Rightarrow>
                       (Inr (Created (id_report r) (title r) (status r) (latitude r) (longitude r)), d1,
                        log1 @ [UrgencyClassificationFailed])
                   | Returned (score, label) \<Rightarrow>
                       let r1 = r\<lparr>urgency_score := score, urgency_label := label\<rparr>;
                           d2 = d1\<lparr>session := put_report r1 (session d1)\<rparr>
                       in if urgency_commit_ok env
                          then (Inr (Created (id_report r1) (title r1) (status r1) (latitude r1) (longitude r1)),
                                commit d2, log1)
                          else (Inr (Created (id_report r1) (title r1) (status r1) (latitude r1) (longitude r1)),
                                d2, log1 @ [UrgencyClassificationFailed]))))"

text \<open>The coordinates of the new report: those of the image's EXIF data when it has any,
  otherwise the form fields.\<close>

definition final_coordinates :: "create_env \<Rightarrow> create_form \<Rightarrow> real option \<times> real option" where
  "final_coordinates env form =
     (case gps_data_of (image_exif env) of
        Some (la, lo) \<Rightarrow> (Some la, Some lo)
      | None \<Rightarrow> (latitude_form form, longitude_form form))"

definition create_issue_report ::
  "create_env \<Rightarrow> db \<Rightarrow> create_form \<Rightarrow> (http_exception + create_response) \<times> db \<times> log_event list" where
  "create_issue_report env d form =
     (if image_content_type form = None
         \<or> \<not> startswith (case image_content_type form of None \<Rightarrow> [] | Some t \<Rightarrow> t) ''image/''
      then (Inl (HTTPException 400 FileMustBeImage), d, [])
      else if image_size form > 10 * 1024 * 1024
      then (Inl (HTTPException 400 FileSizeTooLarge), d, [])
      else
        let log0 = (if image_exif env = Raised then [ExifExtractionFailed] else [])
        in
         (case final_coordinates env form of
            (Some la, Some lo) \<Rightarrow>
              (case duplicate_check env (session d) (category_form form) la lo of
                 Returned (Some existing) \<Rightarrow> (Inr existing, d, log0)
               | Returned None \<Rightarrow>
                   (case continue_creation env d form la lo of
                      (res, d1, log1) \<Rightarrow> (res, d1, log0 @ log1))
               | Raised \<Rightarrow>
                   (case continue_creation env d form la lo of
                      (res, d1, log1) \<Rightarrow> (res, d1, log0 @ [DuplicateDetectionFailed] @ log1)))
          | _ \<Rightarrow> (Inl (HTTPException 400 GpsCoordinatesRequired), d, log0)))"

section \<open>Soft deletion\<close>

text \<open>Embedding of the handler \<^verbatim>\<open>delete_citizen_report\<close> (\<^verbatim>\<open>backend/main.py\<close>). Its
  handler for other exceptions does not roll the session back.\<close>

definition delete_citizen_report ::
  "bool \<Rightarrow> timestamp \<Rightarrow> db \<Rightarrow> nat \<Rightarrow> string \<Rightarrow> string \<Rightarrow> (http_exception + unit) \<times> db" where
  "delete_citizen_report commit_ok now d report_id user_id reason =
     (case find (\<lambda>r. id_report r = report_id \<and> reporter_id r = user_id) (reports (session d)) of
        None \<Rightarrow> (Inl (HTTPException 404 NotFoundOrAccessDenied), d)
      | Some r \<Rightarrow>
         (if is_deleted r then (Inl (HTTPException 400 AlreadyDeleted), d)
          else
            let r1 = r\<lparr>is_deleted := True, deletion_reason := Some reason,
                        deleted_at := Some now, status := ''deleted''\<rparr>;
                d1 = d\<lparr>session := put_report r1 (session d)\<rparr>
            in if commit_ok then (Inr (), commit d1)
               else (Inl (HTTPException 500 InternalErrorDeleting), d1)))"

section \<open>Sample data\<close>

text \<open>A report row, a store and a database with a clean session, used to run the model on
  concrete inputs.\<close>

definition sample_report :: "nat \<Rightarrow> string \<Rightarrow> report" where
  "sample_report i st =
     \<lparr>id_report = i, title = ''Pothole on Main Street'', description = None,
      category = ''Pothole'', image_url = None, latitude = 10, longitude = 20,
      ai_generated_title = None, ai_generated_description = None, ai_tags = None,
      mcq_responses = None, urgency_score = 50, urgency_label = ''Medium'',
      reporter_id = ''citizen-1'', status = st, admin_notes = None, status_history = None,
      is_deleted = False, deletion_reason = None, deleted_at = None, resolved_by = None,
      resolved_at = None, resolution_image_url = None, resolution_coordinates = None,
      reported_at = 1, acknowledged_at = None, in_progress_at = None\<rparr>"

definition sample_store :: "report list \<Rightarrow> store" where
  "sample_store rs =
     \<lparr>reports = rs, status_history_rows = [], admin_verifications = [], face_verifications = [],
      report_upvotes = [], report_comments = [], next_report_id = 100\<rparr>"

definition clean_db :: "store \<Rightarrow> db" where
  "clean_db s = \<lparr>committed = s, session = s\<rparr>"

definition sample_in_progress :: report where
  "sample_in_progress = (sample_report 1 ''in_progress'')\<lparr>acknowledged_at := Some 10, in_progress_at := Some 12\<rparr>"

definition sample_resolve_env :: "(real \<times> real) option outcome \<Rightarrow> string outcome \<Rightarrow> resolve_env" where
  "sample_resolve_env exif w =
     \<lparr>face_verification_required = False, face_query_raises = False, resolution_exif = exif,
      resolution_image_write = w, admin_verification_image = None, status_commit_ok = True,
      final_commit_ok = True, now_r = 30\<rparr>"

definition sample_create :: report_create where
  "sample_create =
     \<lparr>title_in = ''Pothole on Main Street'', description_in = None, category_in = ''Pothole'',
      image_url_in = Some ''/uploads/2025/01/01/a.jpg'', latitude_in = 10, longitude_in = 20\<rparr>"

definition sample_create_env :: "bool \<Rightarrow> create_env" where
  "sample_create_env scan_fails =
     \<lparr>image_exif = Returned None, scan_query_raises = scan_fails, count_query_raises = False,
      image_write = Returned ''/uploads/2025/01/01/b.jpg'', mcq_data = None, ai_summary = Raised,
      ai_classification = Raised, create_commit_ok = True, urgency_commit_ok = True, now_c = 40,
      current_user_id = ''citizen-2'', fresh_uuid = ''uuid'',
      str_strip = ascii_strip, str_lower = ascii_lower\<rparr>"

definition sample_form :: "string \<Rightarrow> create_form" where
  "sample_form c =
     \<lparr>title_form = ''Hole in the road'', description_form = None, category_form = c,
      image_content_type = Some ''image/jpeg'', image_size = 2048,
      latitude_form = Some 10, longitude_form = Some 20\<rparr>"

definition sample_padded :: report where
  "sample_padded = (sample_report 1 ''reported'')\<lparr>category := ''pothole ''\<rparr>"

section \<open>The duplicate condition of the specification\<close>

text \<open>
  In the specification's words: an active report (status reported, acknowledged or
  in_progress, not soft-deleted) whose category matches the new one after surrounding
  whitespace is stripped and case is ignored, with Python's \<^verbatim>\<open>strip\<close> and \<^verbatim>\<open>lower\<close>
  as the environment gives them, and whose distance to the new point is at most 30 meters.
\<close>

definition duplicate_candidate :: "create_env \<Rightarrow> store \<Rightarrow> string \<Rightarrow> real \<Rightarrow> real \<Rightarrow> report \<Rightarrow> bool" where
  "duplicate_candidate env s new_category new_lat new_lon r =
     (r \<in> set (reports s) \<and> \<not> is_deleted r
      \<and> (status r = ''reported'' \<or> status r = ''acknowledged'' \<or> status r = ''in_progress'')
      \<and> normalize_category env (category r) = normalize_category env new_category
      \<and> dist_le (calculate_distance (latitude r) (longitude r) new_lat new_lon) 30)"

section \<open>Properties\<close>

subsection \<open>Lookups and updates of the store\<close>

lemmas sample_defs = sample_report_def sample_store_def clean_db_def get_report_def

lemma list_index_valid:
  "list_index valid_statuses s = Some i \<Longrightarrow>
     (s = ''reported'' \<and> i = 0) \<or> (s = ''acknowledged'' \<and> i = 1)
     \<or> (s = ''in_progress'' \<and> i = 2) \<or> (s = ''resolved'' \<and> i = 3)"
  by (auto simp: valid_statuses_def split: if_splits)

lemma list_index_None_iff: "list_index xs x = None \<longleftrightarrow> x \<notin> set xs"
  by (induction xs) auto

lemma find_map_replace:
  "find (\<lambda>x. id_report x = i) xs = Some r \<Longrightarrow> id_report r' = i \<Longrightarrow>
   find (\<lambda>x. id_report x = i) (map (\<lambda>x. if id_report x = i then r' else x) xs) = Some r'"
  by (induction xs) (auto split: if_splits)

lemma get_put_report:
  "get_report s i = Some r \<Longrightarrow> id_report r' = i \<Longrightarrow> get_report (put_report r' s) i = Some r'"
  by (simp add: get_report_def put_report_def find_map_replace)

lemma get_report_id: "get_report s i = Some r \<Longrightarrow> id_report r = i"
  by (auto simp: get_report_def find_Some_iff)

lemma get_report_add_history [simp]: "get_report (add_history h s) i = get_report s i"
  by (simp add: get_report_def add_history_def)

lemma rows_add_history [simp]: "status_history_rows (add_history h s) = status_history_rows s @ [h]"
  by (simp add: add_history_def)

lemma rows_put_report [simp]: "status_history_rows (put_report r s) = status_history_rows s"
  by (simp add: put_report_def)

lemma id_stamp [simp]: "id_report (stamp n t r) = id_report r"
  by (simp add: stamp_def)

lemma status_stamp [simp]: "status (stamp n t r) = status r"
  by (simp add: stamp_def)

lemma id_json [simp]: "id_report (update_status_history_json r n c t x) = id_report r"
  by (simp add: update_status_history_json_def Let_def)

lemma status_json [simp]: "status (update_status_history_json r n c t x) = status r"
  by (simp add: update_status_history_json_def Let_def)

lemma update_accepted:
  assumes g: "get_report (session d) report_id = Some r"
    and v: "new_status \<in> set valid_statuses"
    and ne: "status r \<noteq> new_status"
    and nr: "status r \<noteq> ''resolved''" "new_status \<noteq> ''resolved''"
    and ok: "validate_lifecycle (status r) new_status = Inr ()"
  shows "update_report_status True now d report_id new_status changed_by notes =
     (Inr (StatusUpdated report_id (status r) new_status changed_by now notes),
      commit (d\<lparr>session := add_history
          \<lparr>report_id_h = report_id, status_h = new_status, changed_by_h = changed_by,
            changed_at_h = now, notes_h = notes\<rparr>
          (put_report (update_status_history_json (stamp new_status now (r\<lparr>status := new_status\<rparr>))
                         new_status changed_by now notes) (session d))\<rparr>))"
  using assms by (simp add: update_report_status_def Let_def)

lemma stamp_fields:
  "acknowledged_at (stamp n t r) = (if n = ''acknowledged'' then Some t else acknowledged_at r)"
  "in_progress_at (stamp n t r) = (if n = ''in_progress'' then Some t else in_progress_at r)"
  "resolved_at (stamp n t r) = (if n = ''resolved'' then Some t else resolved_at r)"
  "reported_at (stamp n t r) = reported_at r"
  by (simp_all add: stamp_def)

lemma json_fields [simp]:
  "acknowledged_at (update_status_history_json r n c t x) = acknowledged_at r"
  "in_progress_at (update_status_history_json r n c t x) = in_progress_at r"
  "resolved_at (update_status_history_json r n c t x) = resolved_at r"
  "reported_at (update_status_history_json r n c t x) = reported_at r"
  by (simp_all add: update_status_history_json_def Let_def)

lemma find_conj:
  "find P xs = Some r \<Longrightarrow> Q r \<Longrightarrow> find (\<lambda>x. P x \<and> Q x) xs = Some r"
  by (induction xs) (auto split: if_splits)

lemma rollback_clean: "session d = committed d \<Longrightarrow> rollback d = d"
  by (simp add: rollback_def)

lemma rollback_session [simp]: "rollback (d\<lparr>session := x\<rparr>) = rollback d"
  by (simp add: rollback_def)

lemma rollback_idem [simp]: "rollback (rollback d) = rollback d"
  by (simp add: rollback_def)

lemma committed_commit [simp]: "committed (commit d) = session d"
  by (simp add: commit_def)

lemma session_commit [simp]: "session (commit d) = session d"
  by (simp add: commit_def)

lemma get_put_report_same:
  "get_report s i \<noteq> None \<Longrightarrow> id_report r' = i \<Longrightarrow> get_report (put_report r' s) i = Some r'"
  using get_put_report by fastforce

lemma get_report_admin_verifications [simp]:
  "get_report (s\<lparr>admin_verifications := x\<rparr>) i = get_report s i"
  by (simp add: get_report_def)

lemma admin_verifications_put [simp]:
  "admin_verifications (put_report r s) = admin_verifications s"
  by (simp add: put_report_def)

lemma admin_verifications_add_history [simp]:
  "admin_verifications (add_history h s) = admin_verifications s"
  by (simp add: add_history_def)

lemma evidence_ok:
  assumes "get_report (session d) report_id = Some r" "status r \<noteq> ''resolved''"
  shows "resolve_report_with_evidence True now d report_id changed_by notes_v =
           (Inr (StatusUpdated report_id (status r) ''resolved'' changed_by now notes_v),
            commit (d\<lparr>session := add_history
               \<lparr>report_id_h = report_id, status_h = ''resolved'', changed_by_h = changed_by,
                 changed_at_h = now, notes_h = Some (notes_or_default notes_v)\<rparr>
               (put_report (update_status_history_json (r\<lparr>status := ''resolved'', resolved_at := Some now\<rparr>)
                              ''resolved'' changed_by now notes_v) (session d))\<rparr>))"
  using assms by (simp add: resolve_report_with_evidence_def Let_def)

lemma evidence_commit_fails:
  assumes "get_report (session d) report_id = Some r" "status r \<noteq> ''resolved''"
  shows "resolve_report_with_evidence False now d report_id changed_by notes_v
           = (Inl DatabaseError, rollback d)"
  using assms by (simp add: resolve_report_with_evidence_def Let_def)

lemma resolve_report_success:
  assumes g: "get_report (session d) report_id = Some r"
    and s: "status r \<noteq> ''resolved''"
    and f: "\<not> (face_verification_required env
              \<and> latest_face_verification env (session d) report_id admin_id = None)"
    and e: "gps_data_of (resolution_exif env) = Some (la, lo)"
    and v: "dist_le (calculate_distance (latitude r) (longitude r) la lo) 30"
    and sc: "status_commit_ok env" and fc: "final_commit_ok env"
  shows "\<exists>res d' r'.
           resolve_report env d report_id admin_id admin_notes_arg provided_lat provided_lon = (Inr res, d')
         \<and> resolution_image_url_res res = upload_image_to_storage (resolution_image_write env)
         \<and> resolution_coordinates_res res =
              \<lparr>latitude_rc = la, longitude_rc = lo,
               distance_from_original_meters = round2 (calculate_distance (latitude r) (longitude r) la lo),
               coordinate_source = ''EXIF from image''\<rparr>
         \<and> admin_verification_image_url res
              = map_option upload_admin_verification_image (admin_verification_image env)
         \<and> get_report (committed d') report_id = Some r'
         \<and> status r' = ''resolved''
         \<and> resolved_at r' = Some (now_r env)
         \<and> resolved_by r' = Some admin_id
         \<and> resolution_image_url r' = Some (resolution_image_url_res res)
         \<and> resolution_coordinates r' = Some (resolution_coordinates_res res)
         \<and> admin_verifications (committed d') =
              admin_verifications (session d) @
                (case admin_verification_image env of
                   Some (Returned u) \<Rightarrow>
                     if u \<noteq> [] then [\<lparr>report_id_av = report_id, admin_id_av = admin_id,
                                        verification_image_url = u\<rparr>] else []
                 | _ \<Rightarrow> [])"
proof -
  let ?dist = "calculate_distance (latitude r) (longitude r) la lo"
  let ?now = "now_r env"
  let ?r1 = "update_status_history_json (r\<lparr>status := ''resolved'', resolved_at := Some ?now\<rparr>)
               ''resolved'' admin_id ?now (Some (GeoVerified ?dist))"
  let ?s1 = "add_history \<lparr>report_id_h = report_id, status_h = ''resolved'', changed_by_h = admin_id,
                 changed_at_h = ?now, notes_h = Some (notes_or_default (Some (GeoVerified ?dist)))\<rparr>
               (put_report ?r1 (session d))"
  have idr: "id_report r = report_id" using g by (rule get_report_id)
  have ev: "resolve_report_with_evidence (status_commit_ok env) ?now d report_id admin_id (Some (GeoVerified ?dist))
           = (Inr (StatusUpdated report_id (status r) ''resolved'' admin_id ?now (Some (GeoVerified ?dist))),
              commit (d\<lparr>session := ?s1\<rparr>))"
    using evidence_ok [OF g s] sc by simp
  have g1: "get_report ?s1 report_id = Some ?r1"
    by (simp add: get_put_report [OF g] idr)
  have vr: "verify_resolution_location (latitude r) (longitude r) la lo = (True, ?dist)"
    using v by (simp add: verify_resolution_location_def max_distance_meters_def)
  show ?thesis
    using g s f e fc
    by (simp add: resolve_report_def vr ev g1 Let_def get_put_report_same idr
          upload_admin_verification_image_def
          split: option.splits outcome.splits)
qed

lemma resolve_report_failure:
  assumes c: "session d = committed d"
    and g: "get_report (session d) report_id = Some r"
    and a: "status r = ''resolved''
            \<or> (face_verification_required env
                 \<and> latest_face_verification env (session d) report_id admin_id = None)
            \<or> gps_data_of (resolution_exif env) = None
            \<or> (\<exists>la lo. gps_data_of (resolution_exif env) = Some (la, lo)
                  \<and> \<not> dist_le (calculate_distance (latitude r) (longitude r) la lo) 30)
            \<or> \<not> status_commit_ok env"
  shows "\<exists>e. resolve_report env d report_id admin_id admin_notes_arg provided_lat provided_lon = (Inl e, d)"
proof -
  have rb: "rollback d = d" using c by (rule rollback_clean)
  show ?thesis
  proof (cases "status r = ''resolved''")
    case True
    then show ?thesis using g by (simp add: resolve_report_def)
  next
    case s: False
    show ?thesis
    proof (cases "face_verification_required env
                 \<and> latest_face_verification env (session d) report_id admin_id = None")
      case True
      then show ?thesis using g s by (simp add: resolve_report_def)
    next
      case f: False
      show ?thesis
      proof (cases "gps_data_of (resolution_exif env)")
        case None
        then show ?thesis using g s f by (simp add: resolve_report_def)
      next
        case (Some p)
        obtain la lo where p: "p = (la, lo)" by (cases p)
        show ?thesis
        proof (cases "dist_le (calculate_distance (latitude r) (longitude r) la lo) 30")
          case False
          then show ?thesis
            using g s f Some p
            by (simp add: resolve_report_def verify_resolution_location_def max_distance_meters_def)
        next
          case True
          then have nsc: "\<not> status_commit_ok env" using a s f Some p by auto
          show ?thesis
            using g s f Some p True nsc evidence_commit_fails [OF g s] rb
            by (simp add: resolve_report_def verify_resolution_location_def max_distance_meters_def)
        qed
      qed
    qed
  qed
qed

subsection \<open>The distance\<close>


lemma sin_half_diff_sq: "(sin ((x - y) / 2))\<^sup>2 = (sin ((y - x) / 2 :: real))\<^sup>2"
proof -
  have "(x - y) / 2 = - ((y - x) / 2)" by argo
  then have "sin ((x - y) / 2) = - sin ((y - x) / 2)"
    by (simp only: sin_minus)
  then show ?thesis by simp
qed

text \<open>
  Claim C10. The distance function is symmetric: for all inputs, in range or not,
  \<open>calculate_distance lat1 lon1 lat2 lon2\<close> equals the distance computed with the two points
  swapped; when a coordinate is out of range both orders give the infinite sentinel.
\<close>

theorem calculate_distance_symmetric:
  "calculate_distance lat1 lon1 lat2 lon2 = calculate_distance lat2 lon2 lat1 lon1"
proof -
  have dlat: "(sin ((radians lat2 - radians lat1) / 2))\<^sup>2 = (sin ((radians lat1 - radians lat2) / 2))\<^sup>2"
    by (rule sin_half_diff_sq)
  have dlon: "(sin ((radians lon2 - radians lon1) / 2))\<^sup>2 = (sin ((radians lon1 - radians lon2) / 2))\<^sup>2"
    by (rule sin_half_diff_sq)
  have comm: "cos (radians lat1) * cos (radians lat2) = cos (radians lat2) * cos (radians lat1)"
    by (rule mult.commute)
  show ?thesis
    unfolding calculate_distance_def Let_def dlat dlon comm
    by auto
qed

theorem calculate_distance_symmetric_witness:
  "calculate_distance 0 0 0 0 = Meters 0
   \<and> calculate_distance 100 0 0 0 = Infinite
   \<and> calculate_distance 0 0 100 0 = Infinite"
proof -
  have a: "calculate_distance 0 0 0 0 = Meters 0"
    by (simp add: calculate_distance_def radians_def earth_radius_def)
  have b: "calculate_distance 100 0 0 0 = Infinite"
    by (simp add: calculate_distance_def)
  have c: "calculate_distance 0 0 100 0 = calculate_distance 100 0 0 0"
    using calculate_distance_symmetric [of 0 0 100 0] by simp
  show ?thesis using a b c by simp
qed

text \<open>A point is at distance zero from itself.\<close>

lemma calculate_distance_same:
  "-90 \<le> la \<Longrightarrow> la \<le> 90 \<Longrightarrow> -180 \<le> lo \<Longrightarrow> lo \<le> 180 \<Longrightarrow> calculate_distance la lo la lo = Meters 0"
  by (simp add: calculate_distance_def)

subsection \<open>The duplicate scan\<close>

lemma dist_less_trans: "dist_less a b \<Longrightarrow> dist_less b c \<Longrightarrow> dist_less a c"
  by (auto simp: dist_less_def split: distance.splits)

lemma dist_less_asym: "dist_less a b \<Longrightarrow> \<not> dist_less b a"
  by (auto simp: dist_less_def split: distance.splits)

lemma dist_less_total_trans: "\<not> dist_less a b \<Longrightarrow> dist_less c b \<Longrightarrow> \<not> dist_less a c"
  by (auto simp: dist_less_def split: distance.splits)

lemma dist_le_less_Infinite: "dist_le a x \<Longrightarrow> dist_less a Infinite"
  by (auto simp: dist_le_def dist_less_def split: distance.splits)

text \<open>The loop invariant of the scan.\<close>

lemma scan_candidates_spec:
  "scan_candidates env c la lo rs (acc, nd) = (res, rd) \<Longrightarrow>
     (res = acc \<and> rd = nd
        \<and> (\<forall>r \<in> set rs. normalize_category env (category r) = c
              \<and> dist_le (calculate_distance (latitude r) (longitude r) la lo) 30
              \<longrightarrow> \<not> dist_less (calculate_distance (latitude r) (longitude r) la lo) nd))
   \<or> (\<exists>r \<in> set rs. res = Some r \<and> rd = calculate_distance (latitude r) (longitude r) la lo
        \<and> normalize_category env (category r) = c
        \<and> dist_le rd 30 \<and> dist_less rd nd
        \<and> (\<forall>r' \<in> set rs. normalize_category env (category r') = c
              \<and> dist_le (calculate_distance (latitude r') (longitude r') la lo) 30
              \<longrightarrow> \<not> dist_less (calculate_distance (latitude r') (longitude r') la lo) rd))"
proof (induction rs arbitrary: acc nd)
  case Nil
  then show ?case by simp
next
  case (Cons x xs)
  let ?dx = "calculate_distance (latitude x) (longitude x) la lo"
  show ?case
  proof (cases "normalize_category env (category x) = c \<and> dist_le ?dx 30 \<and> dist_less ?dx nd")
    case True
    then have "scan_candidates env c la lo xs (Some x, ?dx) = (res, rd)"
      using Cons.prems by (simp add: Let_def)
    from Cons.IH [OF this] show ?thesis
    proof
      assume "res = Some x \<and> rd = ?dx \<and> (\<forall>r \<in> set xs. normalize_category env (category r) = c
              \<and> dist_le (calculate_distance (latitude r) (longitude r) la lo) 30
              \<longrightarrow> \<not> dist_less (calculate_distance (latitude r) (longitude r) la lo) ?dx)"
      then show ?thesis using True by (auto dest: dist_less_asym)
    next
      assume "\<exists>r \<in> set xs. res = Some r \<and> rd = calculate_distance (latitude r) (longitude r) la lo
        \<and> normalize_category env (category r) = c
        \<and> dist_le rd 30 \<and> dist_less rd ?dx
        \<and> (\<forall>r' \<in> set xs. normalize_category env (category r') = c
              \<and> dist_le (calculate_distance (latitude r') (longitude r') la lo) 30
              \<longrightarrow> \<not> dist_less (calculate_distance (latitude r') (longitude r') la lo) rd)"
      then obtain r where r: "r \<in> set xs" "res = Some r"
        "rd = calculate_distance (latitude r) (longitude r) la lo"
        "normalize_category env (category r) = c" "dist_le rd 30" "dist_less rd ?dx"
        "\<forall>r' \<in> set xs. normalize_category env (category r') = c
              \<and> dist_le (calculate_distance (latitude r') (longitude r') la lo) 30
              \<longrightarrow> \<not> dist_less (calculate_distance (latitude r') (longitude r') la lo) rd"
        by blast
      have "dist_less rd nd" using r(6) True dist_less_trans by blast
      moreover have "\<not> dist_less ?dx rd" using r(6) by (rule dist_less_asym)
      ultimately show ?thesis using r by auto
    qed
  next
    case False
    then have "scan_candidates env c la lo xs (acc, nd) = (res, rd)"
      using Cons.prems by (auto simp: Let_def split: if_splits)
    from Cons.IH [OF this] show ?thesis
    proof
      assume "res = acc \<and> rd = nd \<and> (\<forall>r \<in> set xs. normalize_category env (category r) = c
              \<and> dist_le (calculate_distance (latitude r) (longitude r) la lo) 30
              \<longrightarrow> \<not> dist_less (calculate_distance (latitude r) (longitude r) la lo) nd)"
      then show ?thesis using False by auto
    next
      assume "\<exists>r \<in> set xs. res = Some r \<and> rd = calculate_distance (latitude r) (longitude r) la lo
        \<and> normalize_category env (category r) = c
        \<and> dist_le rd 30 \<and> dist_less rd nd
        \<and> (\<forall>r' \<in> set xs. normalize_category env (category r') = c
              \<and> dist_le (calculate_distance (latitude r') (longitude r') la lo) 30
              \<longrightarrow> \<not> dist_less (calculate_distance (latitude r') (longitude r') la lo) rd)"
      then obtain r where r: "r \<in> set xs" "res = Some r"
        "rd = calculate_distance (latitude r) (longitude r) la lo"
        "normalize_category env (category r) = c" "dist_le rd 30" "dist_less rd nd"
        "\<forall>r' \<in> set xs. normalize_category env (category r') = c
              \<and> dist_le (calculate_distance (latitude r') (longitude r') la lo) 30
              \<longrightarrow> \<not> dist_less (calculate_distance (latitude r') (longitude r') la lo) rd"
        by blast
      have "normalize_category env (category x) = c \<and> dist_le ?dx 30 \<longrightarrow> \<not> dist_less ?dx rd"
        using False r(6) dist_less_total_trans by blast
      then show ?thesis using r by auto
    qed
  qed
qed

lemma candidate_iff:
  "duplicate_candidate env s cat la lo r \<longleftrightarrow>
     r \<in> set (active_candidates s)
     \<and> normalize_category env (category r) = normalize_category env cat
     \<and> dist_le (calculate_distance (latitude r) (longitude r) la lo) 30"
  by (auto simp: duplicate_candidate_def active_candidates_def active_statuses_def)

lemma find_nearest_None:
  "find_nearest env s cat la lo = None \<longleftrightarrow> (\<forall>r. \<not> duplicate_candidate env s cat la lo r)"
proof -
  obtain res rd where sc: "scan_candidates env (normalize_category env cat) la lo (active_candidates s) (None, Infinite) = (res, rd)"
    by (cases "scan_candidates env (normalize_category env cat) la lo (active_candidates s) (None, Infinite)")
  have fn: "find_nearest env s cat la lo = res" by (simp add: find_nearest_def sc)
  from scan_candidates_spec [OF sc] show ?thesis
    unfolding fn candidate_iff
    by (auto dest: dist_le_less_Infinite)
qed

lemma find_nearest_Some:
  assumes "find_nearest env s cat la lo = Some r"
  shows "duplicate_candidate env s cat la lo r
       \<and> (\<forall>r'. duplicate_candidate env s cat la lo r' \<longrightarrow>
             \<not> dist_less (calculate_distance (latitude r') (longitude r') la lo)
                          (calculate_distance (latitude r) (longitude r) la lo))"
proof -
  obtain res rd where sc: "scan_candidates env (normalize_category env cat) la lo (active_candidates s) (None, Infinite) = (res, rd)"
    by (cases "scan_candidates env (normalize_category env cat) la lo (active_candidates s) (None, Infinite)")
  have fn: "res = Some r" using assms by (simp add: find_nearest_def sc)
  from scan_candidates_spec [OF sc] show ?thesis
    unfolding fn candidate_iff
    by auto
qed

lemma create_issue_report_checked:
  assumes ct: "image_content_type form = Some t" "startswith t ''image/''"
    and sz: "image_size form \<le> 10 * 1024 * 1024"
    and co: "final_coordinates env form = (Some la, Some lo)"
  shows "create_issue_report env d form =
     (let log0 = (if image_exif env = Raised then [ExifExtractionFailed] else [])
      in case duplicate_check env (session d) (category_form form) la lo of
           Returned (Some existing) \<Rightarrow> (Inr existing, d, log0)
         | Returned None \<Rightarrow>
             (case continue_creation env d form la lo of
                (res, d1, log1) \<Rightarrow> (res, d1, log0 @ log1))
         | Raised \<Rightarrow>
             (case continue_creation env d form la lo of
                (res, d1, log1) \<Rightarrow> (res, d1, log0 @ [DuplicateDetectionFailed] @ log1)))"
  using assms by (simp add: create_issue_report_def Let_def)

lemma normalize_pothole:
  "normalize_category (sample_create_env b) ''Pothole'' = ''pothole''"
  "normalize_category (sample_create_env b) ''pothole '' = ''pothole''"
  "normalize_category (sample_create_env b) ''pothole'' = ''pothole''"
  by (simp_all add: normalize_category_def sample_create_env_def ascii_lower_def ascii_strip_def
        lower_char_def is_space_def py_whitespace_def)

lemma continue_creation_not_duplicate:
  "fst (continue_creation env d form la lo) \<noteq> Inr (Duplicate a b c e f g h i)"
  by (auto simp: continue_creation_def Let_def split: prod.splits outcome.splits if_splits)

lemma get_report_append_new:
  "id_report r = i \<Longrightarrow> \<exists>y. get_report (s\<lparr>reports := reports s @ [r], next_report_id := n\<rparr>) i = Some y"
  using not_None_eq by (fastforce simp: get_report_def find_None_iff)

lemma continue_creation_success:
  assumes v: "report_create_valid (report_data_of env form la lo)"
    and ok: "create_commit_ok env"
  shows "fst (continue_creation env d form la lo)
           = Inr (Created (next_report_id (session d)) (title_in (report_data_of env form la lo))
                    ''pending'' la lo)
       \<and> get_report (committed (fst (snd (continue_creation env d form la lo))))
            (next_report_id (session d)) \<noteq> None"
proof -
  obtain ai_title ai_description ai_tags_v log1
    where sf: "summary_fields env form = (ai_title, ai_description, ai_tags_v, log1)"
    by (cases "summary_fields env form") auto
  have rd: "report_data_of env form la lo =
      \<lparr>title_in = ai_title, description_in = ai_description, category_in = category_form form,
       image_url_in = Some (upload_image_to_storage (image_write env)),
       latitude_in = la, longitude_in = lo\<rparr>"
    by (simp add: report_data_of_def sf)
  show ?thesis
    using v ok
    by (auto simp: continue_creation_def sf rd create_report_def Let_def commit_def
          get_put_report_same get_report_append_new
          split: outcome.splits prod.splits)
qed

subsection \<open>The status state machine\<close>

text \<open>
  Claim C2, amended. For a report whose current status has index \<open>i\<close> in the ordered list
  [reported, acknowledged, in_progress, resolved] and a target with index \<open>j\<close>:
  the same status is a successful no-op; otherwise a resolved report is locked; otherwise a
  target more than one stage ahead is rejected as a skipped stage; otherwise the target
  resolved is rejected because resolution requires evidence; every other request, that is
  one stage forward or any move backward from a status that is not resolved, is accepted
  when the commit succeeds, updates the status and appends exactly one history row.
\<close>

theorem update_report_status_table:
  assumes g: "get_report (session d) report_id = Some r"
    and i: "list_index valid_statuses (status r) = Some i"
    and j: "list_index valid_statuses new_status = Some j"
  shows "(j = i \<longrightarrow>
            update_report_status commit_ok now d report_id new_status changed_by notes
              = (Inr (AlreadyInStatus report_id new_status), d))
       \<and> (j \<noteq> i \<and> i = 3 \<longrightarrow>
            update_report_status commit_ok now d report_id new_status changed_by notes
              = (Inl ResolvedLocked, rollback d))
       \<and> (i \<noteq> 3 \<and> j > i + 1 \<longrightarrow>
            update_report_status commit_ok now d report_id new_status changed_by notes
              = (Inl (CannotSkipStages (status r) new_status), rollback d))
       \<and> (i \<noteq> 3 \<and> j = 3 \<and> j \<le> i + 1 \<longrightarrow>
            update_report_status commit_ok now d report_id new_status changed_by notes
              = (Inl ResolutionRequiresEvidence, rollback d))
       \<and> (i \<noteq> 3 \<and> j \<noteq> 3 \<and> j \<noteq> i \<and> j \<le> i + 1 \<and> commit_ok \<longrightarrow>
            (\<exists>d' r'. update_report_status commit_ok now d report_id new_status changed_by notes
                = (Inr (StatusUpdated report_id (status r) new_status changed_by now notes), d')
              \<and> get_report (committed d') report_id = Some r' \<and> status r' = new_status
              \<and> status_history_rows (committed d')
                  = status_history_rows (session d) @
                      [\<lparr>report_id_h = report_id, status_h = new_status, changed_by_h = changed_by,
                        changed_at_h = now, notes_h = notes\<rparr>]))"
proof -
  have v: "new_status \<in> set valid_statuses"
    using j list_index_None_iff [of valid_statuses new_status] by auto
  note ci = list_index_valid [OF i]
  note cj = list_index_valid [OF j]
  have vl: "validate_lifecycle (status r) new_status =
              (if j > i + 1 then Inl (CannotSkipStages (status r) new_status) else Inr ())"
    using i j by (simp add: validate_lifecycle_def)
  have same: "j = i \<longleftrightarrow> status r = new_status"
    using ci cj by auto
  have res_i: "i = 3 \<longleftrightarrow> status r = ''resolved''"
    using ci by auto
  have res_j: "j = 3 \<longleftrightarrow> new_status = ''resolved''"
    using cj by auto
  have c1: "j = i \<Longrightarrow> update_report_status commit_ok now d report_id new_status changed_by notes
              = (Inr (AlreadyInStatus report_id new_status), d)"
    using g v same by (simp add: update_report_status_def)
  have c2: "j \<noteq> i \<Longrightarrow> i = 3 \<Longrightarrow> update_report_status commit_ok now d report_id new_status changed_by notes
              = (Inl ResolvedLocked, rollback d)"
    using g v same res_i res_j by (simp add: update_report_status_def)
  have c3: "i \<noteq> 3 \<Longrightarrow> j > i + 1 \<Longrightarrow> update_report_status commit_ok now d report_id new_status changed_by notes
              = (Inl (CannotSkipStages (status r) new_status), rollback d)"
    using g v same res_i vl by (simp add: update_report_status_def)
  have c4: "i \<noteq> 3 \<Longrightarrow> j = 3 \<Longrightarrow> j \<le> i + 1 \<Longrightarrow> update_report_status commit_ok now d report_id new_status changed_by notes
              = (Inl ResolutionRequiresEvidence, rollback d)"
    using g v same res_i res_j vl by (simp add: update_report_status_def)
  have c5: "\<exists>d' r'. update_report_status commit_ok now d report_id new_status changed_by notes
                = (Inr (StatusUpdated report_id (status r) new_status changed_by now notes), d')
              \<and> get_report (committed d') report_id = Some r' \<and> status r' = new_status
              \<and> status_history_rows (committed d')
                  = status_history_rows (session d) @
                      [\<lparr>report_id_h = report_id, status_h = new_status, changed_by_h = changed_by,
                        changed_at_h = now, notes_h = notes\<rparr>]"
    if h: "i \<noteq> 3" "j \<noteq> 3" "j \<noteq> i" "j \<le> i + 1" "commit_ok"
  proof -
    have ok: "validate_lifecycle (status r) new_status = Inr ()" using vl h by simp
    have ne: "status r \<noteq> new_status" using same h by simp
    have nr: "status r \<noteq> ''resolved''" "new_status \<noteq> ''resolved''"
      using res_i res_j h by simp_all
    have idr: "id_report r = report_id" using g by (rule get_report_id)
    show ?thesis
      using h(5) update_accepted [OF g v ne nr ok, of now changed_by "notes"]
      by (simp add: commit_def get_put_report [OF g] idr)
  qed
  show ?thesis using c1 c2 c3 c4 c5 by blast
qed

text \<open>The table at reported to acknowledged.\<close>

theorem update_report_status_table_witness:
  "list_index valid_statuses ''reported'' = Some 0
   \<and> list_index valid_statuses ''acknowledged'' = Some 1
   \<and> fst (update_report_status True 5 (clean_db (sample_store [sample_report 1 ''reported'']))
            1 ''acknowledged'' ''admin-1'' None)
       = Inr (StatusUpdated 1 ''reported'' ''acknowledged'' ''admin-1'' 5 None)"
proof -
  let ?d = "clean_db (sample_store [sample_report 1 ''reported''])"
  have g: "get_report (session ?d) 1 = Some (sample_report 1 ''reported'')"
    by (simp add: sample_defs)
  have i: "list_index valid_statuses (status (sample_report 1 ''reported'')) = Some 0"
    by (simp add: valid_statuses_def sample_report_def)
  have j: "list_index valid_statuses ''acknowledged'' = Some 1"
    by (simp add: valid_statuses_def)
  from update_report_status_table [OF g i j, of True 5 "''admin-1''" None]
  have "fst (update_report_status True 5 ?d 1 ''acknowledged'' ''admin-1'' None)
          = Inr (StatusUpdated 1 ''reported'' ''acknowledged'' ''admin-1'' 5 None)"
    by (auto simp: sample_report_def)
  with i j show ?thesis by (simp add: sample_report_def)
qed

text \<open>Claim C2 as stated fails for a backward move out of resolved: the request is neither
  for the same status, nor a skip, nor a request for resolved, and it is rejected.\<close>

theorem backward_from_resolved_counterexample:
  "list_index valid_statuses ''resolved'' = Some 3
   \<and> list_index valid_statuses ''in_progress'' = Some 2
   \<and> fst (update_report_status True 5 (clean_db (sample_store [sample_report 1 ''resolved'']))
            1 ''in_progress'' ''admin-1'' None) = Inl ResolvedLocked"
  by (simp add: valid_statuses_def update_report_status_def sample_defs)

text \<open>
  Claim C9. When the current status is not one of the four ordered statuses, such as the
  status pending that \<open>create_report\<close> assigns, no stage-skip validation takes place:
  a transition to any valid target other than resolved is accepted, however many stages
  it skips.
\<close>

theorem update_from_unlisted_status:
  assumes g: "get_report (session d) report_id = Some r"
    and u: "status r \<notin> set valid_statuses"
    and v: "new_status \<in> set valid_statuses"
    and nr: "new_status \<noteq> ''resolved''"
  shows "validate_lifecycle (status r) new_status = Inr ()
       \<and> fst (update_report_status True now d report_id new_status changed_by notes_v)
           = Inr (StatusUpdated report_id (status r) new_status changed_by now notes_v)
       \<and> map_option status
           (get_report (committed (snd (update_report_status True now d report_id new_status
                                          changed_by notes_v))) report_id)
           = Some new_status"
proof -
  have n: "list_index valid_statuses (status r) = None"
    using u by (simp add: list_index_None_iff)
  have ok: "validate_lifecycle (status r) new_status = Inr ()"
    by (simp add: validate_lifecycle_def n)
  have ne: "status r \<noteq> new_status" using u v by auto
  have r: "status r \<noteq> ''resolved''" using u by (auto simp: valid_statuses_def)
  have idr: "id_report r = report_id" using g by (rule get_report_id)
  show ?thesis
    using ok update_accepted [OF g v ne r nr ok, of now changed_by notes_v]
    by (simp add: commit_def get_put_report [OF g] idr)
qed

text \<open>From pending straight to in_progress.\<close>

theorem update_from_unlisted_status_witness:
  "status (sample_report 1 ''pending'') \<notin> set valid_statuses
   \<and> list_index valid_statuses ''in_progress'' = Some 2
   \<and> fst (update_report_status True 5 (clean_db (sample_store [sample_report 1 ''pending'']))
            1 ''in_progress'' ''admin-1'' None)
       = Inr (StatusUpdated 1 ''pending'' ''in_progress'' ''admin-1'' 5 None)"
proof -
  let ?d = "clean_db (sample_store [sample_report 1 ''pending''])"
  have g: "get_report (session ?d) 1 = Some (sample_report 1 ''pending'')"
    by (simp add: sample_defs)
  have u: "status (sample_report 1 ''pending'') \<notin> set valid_statuses"
    by (simp add: valid_statuses_def sample_report_def)
  have v: "''in_progress'' \<in> set valid_statuses"
    by (simp add: valid_statuses_def)
  have nr: "''in_progress'' \<noteq> ''resolved''" by simp
  have j: "list_index valid_statuses ''in_progress'' = Some 2"
    by (simp add: valid_statuses_def)
  from update_from_unlisted_status [OF g u v nr, of 5 "''admin-1''" None]
  have "fst (update_report_status True 5 ?d 1 ''in_progress'' ''admin-1'' None)
          = Inr (StatusUpdated 1 ''pending'' ''in_progress'' ''admin-1'' 5 None)"
    by (simp add: sample_report_def)
  with u j show ?thesis by simp
qed

text \<open>
  Claim C5, amended. Every accepted transition into acknowledged or in_progress sets the
  timestamp of that stage to the current time whether or not it was set before; all other
  stage timestamps, and \<open>reported_at\<close>, are left unchanged.
\<close>

theorem accepted_transition_stamps:
  assumes g: "get_report (session d) report_id = Some r"
    and a: "update_report_status commit_ok now d report_id new_status changed_by notes_v
              = (Inr (StatusUpdated i old new who t n), d')"
  shows "\<exists>r'. get_report (committed d') report_id = Some r'
           \<and> acknowledged_at r' = (if new_status = ''acknowledged'' then Some now else acknowledged_at r)
           \<and> in_progress_at r' = (if new_status = ''in_progress'' then Some now else in_progress_at r)
           \<and> resolved_at r' = resolved_at r
           \<and> reported_at r' = reported_at r"
proof -
  have idr: "id_report r = report_id" using g by (rule get_report_id)
  have nr: "new_status \<noteq> ''resolved''"
    using a g by (auto simp: update_report_status_def Let_def split: if_splits sum.splits)
  have d': "d' = commit (d\<lparr>session := add_history
          \<lparr>report_id_h = report_id, status_h = new_status, changed_by_h = changed_by,
            changed_at_h = now, notes_h = notes_v\<rparr>
          (put_report (update_status_history_json (stamp new_status now (r\<lparr>status := new_status\<rparr>))
                         new_status changed_by now notes_v) (session d))\<rparr>)"
    using a g by (auto simp: update_report_status_def Let_def split: if_splits sum.splits)
  show ?thesis
    unfolding d' using nr
    by (simp add: commit_def get_put_report [OF g] idr stamp_fields)
qed

text \<open>A first entry into acknowledged.\<close>

theorem accepted_transition_stamps_witness:
  "fst (update_report_status True 20 (clean_db (sample_store [sample_report 1 ''reported'']))
          1 ''acknowledged'' ''admin-1'' None)
     = Inr (StatusUpdated 1 ''reported'' ''acknowledged'' ''admin-1'' 20 None)
   \<and> map_option acknowledged_at
        (get_report (committed (snd (update_report_status True 20
           (clean_db (sample_store [sample_report 1 ''reported''])) 1 ''acknowledged'' ''admin-1'' None))) 1)
      = Some (Some 20)"
proof -
  let ?d = "clean_db (sample_store [sample_report 1 ''reported''])"
  let ?res = "update_report_status True 20 ?d 1 ''acknowledged'' ''admin-1'' None"
  have g: "get_report (session ?d) 1 = Some (sample_report 1 ''reported'')"
    by (simp add: sample_defs)
  have a: "?res = (Inr (StatusUpdated 1 ''reported'' ''acknowledged'' ''admin-1'' 20 None), snd ?res)"
    by (simp add: update_report_status_def sample_defs valid_statuses_def validate_lifecycle_def
          Let_def prod_eq_iff)
  from accepted_transition_stamps [OF g a]
  obtain r' where "get_report (committed (snd ?res)) 1 = Some r'" "acknowledged_at r' = Some 20"
    by auto
  then have "map_option acknowledged_at (get_report (committed (snd ?res)) 1) = Some (Some 20)"
    by simp
  moreover have "fst ?res = Inr (StatusUpdated 1 ''reported'' ''acknowledged'' ''admin-1'' 20 None)"
    using a by (metis fst_conv)
  ultimately show ?thesis by simp
qed

text \<open>Claim C5 as stated fails when a stage is entered again: going back from in_progress
  to acknowledged replaces the acknowledgement time 10 by the current time 20.\<close>

theorem restamp_counterexample:
  "acknowledged_at sample_in_progress = Some 10
   \<and> fst (update_report_status True 20 (clean_db (sample_store [sample_in_progress]))
            1 ''acknowledged'' ''admin-1'' None)
       = Inr (StatusUpdated 1 ''in_progress'' ''acknowledged'' ''admin-1'' 20 None)
   \<and> map_option acknowledged_at
        (get_report (committed (snd (update_report_status True 20
           (clean_db (sample_store [sample_in_progress])) 1 ''acknowledged'' ''admin-1'' None))) 1)
      = Some (Some 20)"
  by (simp add: update_report_status_def sample_defs sample_in_progress_def valid_statuses_def
        validate_lifecycle_def Let_def stamp_def update_status_history_json_def put_report_def
        add_history_def commit_def)

text \<open>
  Claim C3, amended. Once a report is resolved (and the session is clean), neither a status
  update nor a second resolution changes it: an update to another valid status is rejected as
  locked, an update to resolved is a successful no-op, an invalid target is rejected, a second
  resolve attempt is rejected as already resolved, and in each case the database is left as it
  was. The citizen deletion does not look at the status: on a resolved report of the caller
  that is not yet deleted it succeeds and sets the status to deleted.
\<close>

theorem resolved_is_locked:
  assumes c: "session d = committed d"
    and g: "get_report (session d) report_id = Some r"
    and s: "status r = ''resolved''"
  shows "(new_status \<in> set valid_statuses \<and> new_status \<noteq> ''resolved'' \<longrightarrow>
            update_report_status commit_ok now d report_id new_status changed_by notes_v
              = (Inl ResolvedLocked, d))
       \<and> update_report_status commit_ok now d report_id ''resolved'' changed_by notes_v
              = (Inr (AlreadyInStatus report_id ''resolved''), d)
       \<and> (new_status \<notin> set valid_statuses \<longrightarrow>
            update_report_status commit_ok now d report_id new_status changed_by notes_v
              = (Inl (InvalidStatus new_status), d))
       \<and> resolve_report env d report_id admin_id admin_notes_arg provided_lat provided_lon
              = (Inl (HTTPException 400 ReportAlreadyResolved), d)
       \<and> (reporter_id r = user_id \<and> \<not> is_deleted r \<longrightarrow>
            fst (delete_citizen_report True now d report_id user_id reason) = Inr ()
            \<and> map_option status
                (get_report (committed (snd (delete_citizen_report True now d report_id user_id reason)))
                   report_id) = Some ''deleted'')"
proof -
  have rb: "rollback d = d" using c by (rule rollback_clean)
  have a: "new_status \<in> set valid_statuses \<Longrightarrow> new_status \<noteq> ''resolved'' \<Longrightarrow>
            update_report_status commit_ok now d report_id new_status changed_by notes_v
              = (Inl ResolvedLocked, d)"
    using g s rb by (simp add: update_report_status_def)
  have b: "update_report_status commit_ok now d report_id ''resolved'' changed_by notes_v
              = (Inr (AlreadyInStatus report_id ''resolved''), d)"
    using g s by (simp add: update_report_status_def valid_statuses_def)
  have e: "new_status \<notin> set valid_statuses \<Longrightarrow>
            update_report_status commit_ok now d report_id new_status changed_by notes_v
              = (Inl (InvalidStatus new_status), d)"
    using rb by (simp add: update_report_status_def)
  have f: "resolve_report env d report_id admin_id admin_notes_arg provided_lat provided_lon
              = (Inl (HTTPException 400 ReportAlreadyResolved), d)"
    using g s by (simp add: resolve_report_def)
  have h: "fst (delete_citizen_report True now d report_id user_id reason) = Inr ()
            \<and> map_option status
                (get_report (committed (snd (delete_citizen_report True now d report_id user_id reason)))
                   report_id) = Some ''deleted''"
    if u: "reporter_id r = user_id" and nd: "\<not> is_deleted r"
  proof -
    have fnd: "find (\<lambda>x. id_report x = report_id \<and> reporter_id x = user_id) (reports (session d)) = Some r"
      using g u find_conj [of "\<lambda>x. id_report x = report_id" "reports (session d)" r "\<lambda>x. reporter_id x = user_id"]
      by (simp add: get_report_def)
    have idr: "id_report r = report_id" using g by (rule get_report_id)
    show ?thesis
      using fnd nd by (simp add: delete_citizen_report_def Let_def commit_def get_put_report [OF g] idr)
  qed
  show ?thesis using a b e f h by blast
qed

text \<open>The lock at a resolved sample report.\<close>

theorem resolved_is_locked_witness:
  "status (sample_report 1 ''resolved'') = ''resolved''
   \<and> update_report_status True 5 (clean_db (sample_store [sample_report 1 ''resolved'']))
        1 ''acknowledged'' ''admin-1'' None
       = (Inl ResolvedLocked, clean_db (sample_store [sample_report 1 ''resolved'']))
   \<and> resolve_report (sample_resolve_env (Returned (Some (10, 20))) (Returned ''/uploads/e.jpg''))
        (clean_db (sample_store [sample_report 1 ''resolved''])) 1 ''admin-1'' None None None
       = (Inl (HTTPException 400 ReportAlreadyResolved), clean_db (sample_store [sample_report 1 ''resolved'']))"
proof -
  let ?d = "clean_db (sample_store [sample_report 1 ''resolved''])"
  have c: "session ?d = committed ?d" by (simp add: clean_db_def)
  have g: "get_report (session ?d) 1 = Some (sample_report 1 ''resolved'')"
    by (simp add: sample_defs)
  have s: "status (sample_report 1 ''resolved'') = ''resolved''"
    by (simp add: sample_report_def)
  have v: "''acknowledged'' \<in> set valid_statuses \<and> ''acknowledged'' \<noteq> ''resolved''"
    by (simp add: valid_statuses_def)
  from resolved_is_locked [OF c g s, of "''acknowledged''" True 5 "''admin-1''" None
      "sample_resolve_env (Returned (Some (10, 20))) (Returned ''/uploads/e.jpg'')" "''admin-1''" None None None]
    v s
  show ?thesis by blast
qed

text \<open>Claim C3 as stated fails twice on a resolved report: the owner's deletion moves it to
  deleted, and a status update whose target is resolved is answered with success, not with
  the lock error.\<close>

theorem delete_resolved_counterexample:
  "status (sample_report 1 ''resolved'') = ''resolved''
   \<and> fst (delete_citizen_report True 9 (clean_db (sample_store [sample_report 1 ''resolved'']))
            1 ''citizen-1'' ''no longer needed'') = Inr ()
   \<and> map_option status
        (get_report (committed (snd (delete_citizen_report True 9
           (clean_db (sample_store [sample_report 1 ''resolved''])) 1 ''citizen-1'' ''no longer needed''))) 1)
       = Some ''deleted''
   \<and> fst (update_report_status True 9 (clean_db (sample_store [sample_report 1 ''resolved'']))
            1 ''resolved'' ''admin-1'' None) = Inr (AlreadyInStatus 1 ''resolved'')"
  by (simp add: delete_citizen_report_def update_report_status_def sample_defs valid_statuses_def
        Let_def put_report_def commit_def)

subsection \<open>Report creation\<close>

text \<open>
  Claim C4 says that the status of every report is one of reported, acknowledged,
  in_progress, resolved, deleted. \<open>create_report\<close> breaks it: every report it stores has
  the status pending, which is none of the five.
\<close>

theorem create_report_status_pending:
  assumes "create_report True now d report_data ai_title ai_description ai_tags_v mcq_json reporter uuid4
             = (Returned r, d')"
  shows "status r = ''pending''
       \<and> status r \<notin> set [''reported'', ''acknowledged'', ''in_progress'', ''resolved'', ''deleted'']
       \<and> r \<in> set (reports (committed d'))"
  using assms by (auto simp: create_report_def Let_def commit_def)

text \<open>A report created in an empty store.\<close>

theorem create_report_status_pending_witness:
  "map_option status
     (get_report (committed (snd (create_report True 7 (clean_db (sample_store [])) sample_create
         ''Pothole on Main Street'' None None None ''citizen-1'' ''uuid''))) 100) = Some ''pending''
   \<and> ''pending'' \<notin> set [''reported'', ''acknowledged'', ''in_progress'', ''resolved'', ''deleted'']"
proof -
  let ?res = "create_report True 7 (clean_db (sample_store [])) sample_create
         ''Pothole on Main Street'' None None None ''citizen-1'' ''uuid''"
  obtain r d' where e: "?res = (Returned r, d')" and i: "id_report r = 100"
    and m: "get_report (committed d') 100 = Some r"
    by (simp add: create_report_def Let_def commit_def sample_defs)
  from create_report_status_pending [OF e]
  have "status r = ''pending''" and "status r \<notin> set [''reported'', ''acknowledged'', ''in_progress'', ''resolved'', ''deleted'']"
    by blast+
  then show ?thesis using e m by simp
qed

subsection \<open>Resolution\<close>

text \<open>
  Claim C7. The outcome of \<open>resolve_report\<close> does not depend on the coordinates supplied
  as form fields: two calls that differ only in them give the same result. When the evidence
  image carries no EXIF coordinates the call fails and leaves the database as it was, and,
  once the report is found, is not yet resolved and the face check (if required) passes, the
  failure is the missing-location error, whatever coordinates were supplied.
\<close>

theorem resolve_report_ignores_provided_coordinates:
  "resolve_report env d report_id admin_id admin_notes_arg provided_lat provided_lon
     = resolve_report env d report_id admin_id admin_notes_arg provided_lat' provided_lon'
   \<and> (gps_data_of (resolution_exif env) = None \<longrightarrow>
        (\<exists>e. resolve_report env d report_id admin_id admin_notes_arg provided_lat provided_lon = (Inl e, d)))
   \<and> (gps_data_of (resolution_exif env) = None
        \<and> get_report (session d) report_id = Some r \<and> status r \<noteq> ''resolved''
        \<and> \<not> (face_verification_required env
              \<and> latest_face_verification env (session d) report_id admin_id = None) \<longrightarrow>
        resolve_report env d report_id admin_id admin_notes_arg provided_lat provided_lon
          = (Inl (HTTPException 400 EvidenceMustIncludeExifGps), d))"
proof -
  have a: "resolve_report env d report_id admin_id admin_notes_arg provided_lat provided_lon
     = resolve_report env d report_id admin_id admin_notes_arg provided_lat' provided_lon'"
    by (simp add: resolve_report_def)
  have b: "\<exists>e. resolve_report env d report_id admin_id admin_notes_arg provided_lat provided_lon = (Inl e, d)"
    if "gps_data_of (resolution_exif env) = None"
    using that by (simp add: resolve_report_def split: option.splits)
  have c: "resolve_report env d report_id admin_id admin_notes_arg provided_lat provided_lon
          = (Inl (HTTPException 400 EvidenceMustIncludeExifGps), d)"
    if "gps_data_of (resolution_exif env) = None" "get_report (session d) report_id = Some r"
       "status r \<noteq> ''resolved''"
       "\<not> (face_verification_required env
              \<and> latest_face_verification env (session d) report_id admin_id = None)"
    using that by (auto simp: resolve_report_def)
  show ?thesis using a b c by blast
qed

text \<open>An image without GPS, with coordinates 10, 20 supplied as form fields.\<close>

theorem resolve_report_ignores_provided_coordinates_witness:
  "gps_data_of (resolution_exif (sample_resolve_env (Returned None) (Returned ''/uploads/e.jpg''))) = None
   \<and> resolve_report (sample_resolve_env (Returned None) (Returned ''/uploads/e.jpg''))
        (clean_db (sample_store [sample_report 1 ''in_progress''])) 1 ''admin-1'' None (Some 10) (Some 20)
      = (Inl (HTTPException 400 EvidenceMustIncludeExifGps),
         clean_db (sample_store [sample_report 1 ''in_progress'']))"
proof -
  let ?env = "sample_resolve_env (Returned None) (Returned ''/uploads/e.jpg'')"
  let ?d = "clean_db (sample_store [sample_report 1 ''in_progress''])"
  have n: "gps_data_of (resolution_exif ?env) = None"
    by (simp add: sample_resolve_env_def gps_data_of_def)
  have g: "get_report (session ?d) 1 = Some (sample_report 1 ''in_progress'')"
    by (simp add: sample_defs)
  have s: "status (sample_report 1 ''in_progress'') \<noteq> ''resolved''"
    by (simp add: sample_report_def)
  have f: "\<not> (face_verification_required ?env
              \<and> latest_face_verification ?env (session ?d) 1 ''admin-1'' = None)"
    by (simp add: sample_resolve_env_def)
  from resolve_report_ignores_provided_coordinates
         [of ?env ?d 1 "''admin-1''" None "Some 10" "Some 20" None None "sample_report 1 ''in_progress''"]
       n g s f
  show ?thesis by blast
qed

text \<open>
  Claim C1, amended. For every call of \<open>resolve_report\<close> on a clean session for an existing
  report: when the evidence image has no EXIF coordinates, when the distance check fails or
  when the status update cannot be committed, the call fails and the database is left as it
  was. A failed write of the evidence image does not abort the call (the placeholder URL is
  stored), nor does a failed write of the admin verification image (no verification row is
  stored). Whenever the final commit succeeds, the call either fails with the database left
  as it was, or succeeds with status, \<open>resolved_at\<close>, \<open>resolved_by\<close>,
  \<open>resolution_image_url\<close> and \<open>resolution_coordinates\<close> all changed together.
\<close>

theorem resolve_report_all_or_nothing:
  assumes c: "session d = committed d"
    and g: "get_report (session d) report_id = Some r"
  shows "(final_commit_ok env \<longrightarrow>
            (\<forall>e d'. resolve_report env d report_id admin_id admin_notes_arg provided_lat provided_lon
                       = (Inl e, d') \<longrightarrow> d' = d)
          \<and> (\<forall>res d'. resolve_report env d report_id admin_id admin_notes_arg provided_lat provided_lon
                       = (Inr res, d') \<longrightarrow>
                (\<exists>r'. get_report (committed d') report_id = Some r'
                     \<and> status r' = ''resolved'' \<and> resolved_at r' = Some (now_r env)
                     \<and> resolved_by r' = Some admin_id
                     \<and> resolution_image_url r' = Some (resolution_image_url_res res)
                     \<and> resolution_coordinates r' = Some (resolution_coordinates_res res))))
       \<and> (gps_data_of (resolution_exif env) = None
            \<or> (\<exists>la lo. gps_data_of (resolution_exif env) = Some (la, lo)
                  \<and> \<not> dist_le (calculate_distance (latitude r) (longitude r) la lo) 30)
            \<or> \<not> status_commit_ok env \<longrightarrow>
            (\<exists>e. resolve_report env d report_id admin_id admin_notes_arg provided_lat provided_lon
                    = (Inl e, d)))
       \<and> (status r \<noteq> ''resolved''
            \<and> \<not> (face_verification_required env
                   \<and> latest_face_verification env (session d) report_id admin_id = None)
            \<and> gps_data_of (resolution_exif env) = Some (la, lo)
            \<and> dist_le (calculate_distance (latitude r) (longitude r) la lo) 30
            \<and> status_commit_ok env \<and> final_commit_ok env \<longrightarrow>
            (\<exists>res d'. resolve_report env d report_id admin_id admin_notes_arg provided_lat provided_lon
                         = (Inr res, d')
               \<and> resolution_image_url_res res = upload_image_to_storage (resolution_image_write env)
               \<and> (resolution_image_write env = Raised \<longrightarrow>
                    resolution_image_url_res res = ''https://placeholder.com/image.jpg'')
               \<and> (admin_verification_image env = Some Raised \<longrightarrow>
                    admin_verifications (committed d') = admin_verifications (session d))))"
proof -
  let ?call = "resolve_report env d report_id admin_id admin_notes_arg provided_lat provided_lon"
  let ?bad = "status r = ''resolved''
            \<or> (face_verification_required env
                 \<and> latest_face_verification env (session d) report_id admin_id = None)
            \<or> gps_data_of (resolution_exif env) = None
            \<or> (\<exists>la lo. gps_data_of (resolution_exif env) = Some (la, lo)
                  \<and> \<not> dist_le (calculate_distance (latitude r) (longitude r) la lo) 30)
            \<or> \<not> status_commit_ok env"
  have fail: "?bad \<Longrightarrow> \<exists>e. ?call = (Inl e, d)"
    by (rule resolve_report_failure [OF c g])
  have good: "\<exists>la lo. status r \<noteq> ''resolved''
            \<and> \<not> (face_verification_required env
                   \<and> latest_face_verification env (session d) report_id admin_id = None)
            \<and> gps_data_of (resolution_exif env) = Some (la, lo)
            \<and> dist_le (calculate_distance (latitude r) (longitude r) la lo) 30
            \<and> status_commit_ok env" if "\<not> ?bad"
    using that by (cases "gps_data_of (resolution_exif env)") auto
  have p1: "d' = d" if fc: "final_commit_ok env" and eq: "?call = (Inl e, d')" for e d'
  proof (cases ?bad)
    case True
    from fail [OF True] eq show ?thesis by auto
  next
    case False
    from good [OF False] obtain la lo where h: "status r \<noteq> ''resolved''"
      "\<not> (face_verification_required env
           \<and> latest_face_verification env (session d) report_id admin_id = None)"
      "gps_data_of (resolution_exif env) = Some (la, lo)"
      "dist_le (calculate_distance (latitude r) (longitude r) la lo) 30"
      "status_commit_ok env" by blast
    from resolve_report_success [OF g h fc, of admin_notes_arg provided_lat provided_lon] eq
    show ?thesis by auto
  qed
  have p2: "\<exists>r'. get_report (committed d') report_id = Some r'
                     \<and> status r' = ''resolved'' \<and> resolved_at r' = Some (now_r env)
                     \<and> resolved_by r' = Some admin_id
                     \<and> resolution_image_url r' = Some (resolution_image_url_res res)
                     \<and> resolution_coordinates r' = Some (resolution_coordinates_res res)"
    if fc: "final_commit_ok env" and eq: "?call = (Inr res, d')" for res d'
  proof (cases ?bad)
    case True
    from fail [OF True] eq show ?thesis by auto
  next
    case False
    from good [OF False] obtain la lo where h: "status r \<noteq> ''resolved''"
      "\<not> (face_verification_required env
           \<and> latest_face_verification env (session d) report_id admin_id = None)"
      "gps_data_of (resolution_exif env) = Some (la, lo)"
      "dist_le (calculate_distance (latitude r) (longitude r) la lo) 30"
      "status_commit_ok env" by blast
    from resolve_report_success [OF g h fc, of admin_notes_arg provided_lat provided_lon] eq
    show ?thesis by auto
  qed
  have p3: "\<exists>e. ?call = (Inl e, d)"
    if "gps_data_of (resolution_exif env) = None
            \<or> (\<exists>la lo. gps_data_of (resolution_exif env) = Some (la, lo)
                  \<and> \<not> dist_le (calculate_distance (latitude r) (longitude r) la lo) 30)
            \<or> \<not> status_commit_ok env"
    using that fail by blast
  have p4: "\<exists>res d'. ?call = (Inr res, d')
               \<and> resolution_image_url_res res = upload_image_to_storage (resolution_image_write env)
               \<and> (resolution_image_write env = Raised \<longrightarrow>
                    resolution_image_url_res res = ''https://placeholder.com/image.jpg'')
               \<and> (admin_verification_image env = Some Raised \<longrightarrow>
                    admin_verifications (committed d') = admin_verifications (session d))"
    if h: "status r \<noteq> ''resolved''"
      "\<not> (face_verification_required env
           \<and> latest_face_verification env (session d) report_id admin_id = None)"
      "gps_data_of (resolution_exif env) = Some (la, lo)"
      "dist_le (calculate_distance (latitude r) (longitude r) la lo) 30"
      "status_commit_ok env" and fc: "final_commit_ok env"
  proof -
    from resolve_report_success [OF g h fc, of admin_notes_arg provided_lat provided_lon]
    obtain res d' where "?call = (Inr res, d')"
      "resolution_image_url_res res = upload_image_to_storage (resolution_image_write env)"
      "admin_verifications (committed d') =
              admin_verifications (session d) @
                (case admin_verification_image env of
                   Some (Returned u) \<Rightarrow>
                     if u \<noteq> [] then [\<lparr>report_id_av = report_id, admin_id_av = admin_id,
                                        verification_image_url = u\<rparr>] else []
                 | _ \<Rightarrow> [])"
      by blast
    then show ?thesis
      by (auto simp: upload_image_to_storage_def)
  qed
  show ?thesis using p1 p2 p3 p4 by blast
qed

text \<open>An image without GPS aborts; an image taken at the report's own position resolves.\<close>

theorem resolve_report_all_or_nothing_witness:
  "session (clean_db (sample_store [sample_report 1 ''in_progress'']))
     = committed (clean_db (sample_store [sample_report 1 ''in_progress'']))
   \<and> (\<exists>e. resolve_report (sample_resolve_env (Returned None) (Returned ''/uploads/e.jpg''))
             (clean_db (sample_store [sample_report 1 ''in_progress''])) 1 ''admin-1'' None None None
           = (Inl e, clean_db (sample_store [sample_report 1 ''in_progress''])))
   \<and> (\<exists>res d'. resolve_report (sample_resolve_env (Returned (Some (10, 20))) (Returned ''/uploads/e.jpg''))
             (clean_db (sample_store [sample_report 1 ''in_progress''])) 1 ''admin-1'' None None None
           = (Inr res, d') \<and> resolution_image_url_res res = ''/uploads/e.jpg'')"
proof -
  let ?d = "clean_db (sample_store [sample_report 1 ''in_progress''])"
  let ?e0 = "sample_resolve_env (Returned None) (Returned ''/uploads/e.jpg'')"
  let ?e1 = "sample_resolve_env (Returned (Some (10, 20))) (Returned ''/uploads/e.jpg'')"
  let ?r = "sample_report 1 ''in_progress''"
  have c: "session ?d = committed ?d" by (simp add: clean_db_def)
  have g: "get_report (session ?d) 1 = Some ?r" by (simp add: sample_defs)
  have n: "gps_data_of (resolution_exif ?e0) = None"
    by (simp add: sample_resolve_env_def gps_data_of_def)
  have a: "\<exists>e. resolve_report ?e0 ?d 1 ''admin-1'' None None None = (Inl e, ?d)"
    using resolve_report_all_or_nothing [OF c g, of ?e0 "''admin-1''" None None None] n by blast
  have h: "status ?r \<noteq> ''resolved''
     \<and> \<not> (face_verification_required ?e1 \<and> latest_face_verification ?e1 (session ?d) 1 ''admin-1'' = None)
     \<and> gps_data_of (resolution_exif ?e1) = Some (10, 20)
     \<and> dist_le (calculate_distance (latitude ?r) (longitude ?r) 10 20) 30
     \<and> status_commit_ok ?e1 \<and> final_commit_ok ?e1"
    by (simp add: sample_resolve_env_def sample_report_def gps_data_of_def calculate_distance_same dist_le_def)
  have b: "\<exists>res d'. resolve_report ?e1 ?d 1 ''admin-1'' None None None = (Inr res, d')
              \<and> resolution_image_url_res res = ''/uploads/e.jpg''"
    using resolve_report_all_or_nothing [OF c g, of ?e1 "''admin-1''" None None None 10 20] h
    by (auto simp: upload_image_to_storage_def sample_resolve_env_def)
  show ?thesis using c a b by blast
qed

text \<open>Claim C1 as stated fails at the image upload step: when the evidence image cannot be
  written, the call does not abort but resolves the report with the placeholder URL.\<close>

theorem upload_failure_counterexample:
  "resolution_image_write (sample_resolve_env (Returned (Some (10, 20))) Raised) = Raised
   \<and> map_sum id resolution_image_url_res
        (fst (resolve_report (sample_resolve_env (Returned (Some (10, 20))) Raised)
               (clean_db (sample_store [sample_report 1 ''in_progress''])) 1 ''admin-1'' None None None))
       = Inr ''https://placeholder.com/image.jpg''
   \<and> map_option status
        (get_report (committed (snd (resolve_report (sample_resolve_env (Returned (Some (10, 20))) Raised)
               (clean_db (sample_store [sample_report 1 ''in_progress''])) 1 ''admin-1'' None None None))) 1)
       = Some ''resolved''"
proof -
  let ?d = "clean_db (sample_store [sample_report 1 ''in_progress''])"
  let ?e1 = "sample_resolve_env (Returned (Some (10, 20))) Raised"
  let ?r = "sample_report 1 ''in_progress''"
  have g: "get_report (session ?d) 1 = Some ?r" by (simp add: sample_defs)
  have s: "status ?r \<noteq> ''resolved''" by (simp add: sample_report_def)
  have f: "\<not> (face_verification_required ?e1 \<and> latest_face_verification ?e1 (session ?d) 1 ''admin-1'' = None)"
    by (simp add: sample_resolve_env_def)
  have e: "gps_data_of (resolution_exif ?e1) = Some (10, 20)"
    by (simp add: sample_resolve_env_def gps_data_of_def)
  have v: "dist_le (calculate_distance (latitude ?r) (longitude ?r) 10 20) 30"
    by (simp add: sample_report_def calculate_distance_same dist_le_def)
  have sc: "status_commit_ok ?e1" and fc: "final_commit_ok ?e1"
    by (simp_all add: sample_resolve_env_def)
  from resolve_report_success [OF g s f e v sc fc, of None None None]
  obtain res d' r' where
    "resolve_report ?e1 ?d 1 ''admin-1'' None None None = (Inr res, d')"
    "resolution_image_url_res res = upload_image_to_storage (resolution_image_write ?e1)"
    "get_report (committed d') 1 = Some r'" "status r' = ''resolved''"
    by blast
  then show ?thesis
    by (simp add: upload_image_to_storage_def sample_resolve_env_def)
qed

subsection \<open>Duplicate detection\<close>

text \<open>
  Claim C6, amended. For every report-creation request that passes the image and coordinate
  checks, with the database queries answering: the duplicate check scans exactly the active
  reports (status reported, acknowledged or in_progress, not soft-deleted) and returns a
  nearest one among those whose category equals the new one after surrounding whitespace is
  stripped and letters are lowered (by Python's \<^verbatim>\<open>strip\<close> and \<^verbatim>\<open>lower\<close>, whatever
  characters they act on), and whose distance to the new point is at most 30 meters,
  the bound included (30 is a match, 30.01 is not). If such a report exists its summary is
  returned and the database is left as it was; otherwise creation proceeds.
\<close>

theorem duplicate_check_decides:
  assumes ct: "image_content_type form = Some t" "startswith t ''image/''"
    and sz: "image_size form \<le> 10 * 1024 * 1024"
    and co: "final_coordinates env form = (Some la, Some lo)"
    and q: "\<not> scan_query_raises env" "\<not> count_query_raises env"
  shows "((\<forall>r. \<not> duplicate_candidate env (session d) (category_form form) la lo r) \<longrightarrow>
            fst (create_issue_report env d form) = fst (continue_creation env d form la lo)
            \<and> fst (snd (create_issue_report env d form)) = fst (snd (continue_creation env d form la lo)))
       \<and> ((\<exists>r. duplicate_candidate env (session d) (category_form form) la lo r) \<longrightarrow>
            (\<exists>r. duplicate_candidate env (session d) (category_form form) la lo r
               \<and> (\<forall>r'. duplicate_candidate env (session d) (category_form form) la lo r' \<longrightarrow>
                     \<not> dist_less (calculate_distance (latitude r') (longitude r') la lo)
                                  (calculate_distance (latitude r) (longitude r) la lo))
               \<and> fst (create_issue_report env d form)
                   = Inr (Duplicate (id_report r) (title r) (category r) (status r) (latitude r)
                            (longitude r) (count_rows (report_upvotes (session d)) (id_report r))
                            (count_rows (report_comments (session d)) (id_report r)))
               \<and> fst (snd (create_issue_report env d form)) = d))
       \<and> dist_le (Meters 30) 30 \<and> \<not> dist_le (Meters (3001 / 100)) 30"
proof -
  note unf = create_issue_report_checked [OF ct sz co, of d]
  have a: "fst (create_issue_report env d form) = fst (continue_creation env d form la lo)
            \<and> fst (snd (create_issue_report env d form)) = fst (snd (continue_creation env d form la lo))"
    if "\<forall>r. \<not> duplicate_candidate env (session d) (category_form form) la lo r"
  proof -
    have "find_nearest env (session d) (category_form form) la lo = None"
      using that by (simp add: find_nearest_None)
    then have "duplicate_check env (session d) (category_form form) la lo = Returned None"
      using q by (simp add: duplicate_check_def)
    then show ?thesis
      unfolding unf by (simp add: Let_def split: prod.splits)
  qed
  have b: "\<exists>r. duplicate_candidate env (session d) (category_form form) la lo r
               \<and> (\<forall>r'. duplicate_candidate env (session d) (category_form form) la lo r' \<longrightarrow>
                     \<not> dist_less (calculate_distance (latitude r') (longitude r') la lo)
                                  (calculate_distance (latitude r) (longitude r) la lo))
               \<and> fst (create_issue_report env d form)
                   = Inr (Duplicate (id_report r) (title r) (category r) (status r) (latitude r)
                            (longitude r) (count_rows (report_upvotes (session d)) (id_report r))
                            (count_rows (report_comments (session d)) (id_report r)))
               \<and> fst (snd (create_issue_report env d form)) = d"
    if "\<exists>r. duplicate_candidate env (session d) (category_form form) la lo r"
  proof -
    have "find_nearest env (session d) (category_form form) la lo \<noteq> None"
      using that by (simp add: find_nearest_None)
    then obtain r where r: "find_nearest env (session d) (category_form form) la lo = Some r"
      by blast
    have dc: "duplicate_check env (session d) (category_form form) la lo
            = Returned (Some (Duplicate (id_report r) (title r) (category r) (status r) (latitude r)
                            (longitude r) (count_rows (report_upvotes (session d)) (id_report r))
                            (count_rows (report_comments (session d)) (id_report r))))"
      using q r by (simp add: duplicate_check_def)
    have "fst (create_issue_report env d form)
                   = Inr (Duplicate (id_report r) (title r) (category r) (status r) (latitude r)
                            (longitude r) (count_rows (report_upvotes (session d)) (id_report r))
                            (count_rows (report_comments (session d)) (id_report r)))
               \<and> fst (snd (create_issue_report env d form)) = d"
      unfolding unf dc by (simp add: Let_def)
    with find_nearest_Some [OF r] show ?thesis by blast
  qed
  have c: "dist_le (Meters 30) 30 \<and> \<not> dist_le (Meters (3001 / 100)) 30"
    by (simp add: dist_le_def)
  show ?thesis using a b c by blast
qed

text \<open>A second submission at the position of an existing report of the same category.\<close>

theorem duplicate_check_decides_witness:
  "final_coordinates (sample_create_env False) (sample_form ''pothole'') = (Some 10, Some 20)
   \<and> (\<exists>r. duplicate_candidate (sample_create_env False) (session (clean_db (sample_store [sample_report 1 ''reported''])))
             ''pothole'' 10 20 r
         \<and> fst (create_issue_report (sample_create_env False)
                  (clean_db (sample_store [sample_report 1 ''reported''])) (sample_form ''pothole''))
             = Inr (Duplicate (id_report r) (title r) (category r) (status r) (latitude r)
                            (longitude r) 0 0))"
proof -
  let ?env = "sample_create_env False"
  let ?d = "clean_db (sample_store [sample_report 1 ''reported''])"
  let ?form = "sample_form ''pothole''"
  have ct: "image_content_type ?form = Some ''image/jpeg''" "startswith ''image/jpeg'' ''image/''"
    by (simp_all add: sample_form_def startswith_def)
  have sz: "image_size ?form \<le> 10 * 1024 * 1024" by (simp add: sample_form_def)
  have co: "final_coordinates ?env ?form = (Some 10, Some 20)"
    by (simp add: final_coordinates_def sample_create_env_def sample_form_def gps_data_of_def)
  have q: "\<not> scan_query_raises ?env" "\<not> count_query_raises ?env"
    by (simp_all add: sample_create_env_def)
  have ex: "\<exists>r. duplicate_candidate ?env (session ?d) (category_form ?form) 10 20 r"
    by (rule exI [of _ "sample_report 1 ''reported''"])
       (simp add: duplicate_candidate_def sample_defs sample_form_def normalize_pothole
          calculate_distance_same dist_le_def)
  have cnt: "count_rows (report_upvotes (session ?d)) i = 0" "count_rows (report_comments (session ?d)) i = 0" for i
    by (simp_all add: count_rows_def sample_defs)
  have cf: "category_form ?form = ''pothole''" by (simp add: sample_form_def)
  from duplicate_check_decides [OF ct sz co q, of ?d] ex
  obtain r where r1: "duplicate_candidate ?env (session ?d) (category_form ?form) 10 20 r"
    and r2: "fst (create_issue_report ?env ?d ?form)
             = Inr (Duplicate (id_report r) (title r) (category r) (status r) (latitude r)
                            (longitude r) (count_rows (report_upvotes (session ?d)) (id_report r))
                            (count_rows (report_comments (session ?d)) (id_report r)))"
    by blast
  have r1': "duplicate_candidate ?env (session ?d) ''pothole'' 10 20 r"
    using r1 by (simp only: cf)
  have r2': "fst (create_issue_report ?env ?d ?form)
             = Inr (Duplicate (id_report r) (title r) (category r) (status r) (latitude r)
                            (longitude r) 0 0)"
    using r2 by (simp only: cnt)
  show ?thesis using co r1' r2' by blast
qed

text \<open>Claim C6 as stated fails for categories that differ in surrounding whitespace: they
  are not equal up to case, yet the existing report is returned as a duplicate.\<close>

theorem padded_category_counterexample:
  "category sample_padded = ''pothole ''
   \<and> str_lower (sample_create_env False) (category sample_padded)
       \<noteq> str_lower (sample_create_env False) ''Pothole''
   \<and> fst (create_issue_report (sample_create_env False) (clean_db (sample_store [sample_padded]))
            (sample_form ''Pothole''))
       = Inr (Duplicate 1 ''Pothole on Main Street'' ''pothole '' ''reported'' 10 20 0 0)"
proof -
  let ?env = "sample_create_env False"
  let ?d = "clean_db (sample_store [sample_padded])"
  let ?form = "sample_form ''Pothole''"
  have a: "category sample_padded = ''pothole ''"
    by (simp add: sample_padded_def)
  have b: "str_lower ?env (category sample_padded) \<noteq> str_lower ?env ''Pothole''"
    by (simp add: a sample_create_env_def ascii_lower_def)
  have ct: "image_content_type ?form = Some ''image/jpeg''" "startswith ''image/jpeg'' ''image/''"
    by (simp_all add: sample_form_def startswith_def)
  have sz: "image_size ?form \<le> 10 * 1024 * 1024" by (simp add: sample_form_def)
  have co: "final_coordinates ?env ?form = (Some 10, Some 20)"
    by (simp add: final_coordinates_def sample_create_env_def sample_form_def gps_data_of_def)
  have q: "\<not> scan_query_raises ?env" "\<not> count_query_raises ?env"
    by (simp_all add: sample_create_env_def)
  have cf: "category_form ?form = ''Pothole''" by (simp add: sample_form_def)
  have fn: "find_nearest ?env (session ?d) ''Pothole'' 10 20 = Some sample_padded"
    by (simp add: find_nearest_def active_candidates_def active_statuses_def clean_db_def
          sample_store_def sample_padded_def sample_report_def normalize_pothole
          calculate_distance_same dist_le_def dist_less_def Let_def)
  have dc: "duplicate_check ?env (session ?d) (category_form ?form) 10 20
              = Returned (Some (Duplicate 1 ''Pothole on Main Street'' ''pothole '' ''reported'' 10 20 0 0))"
    unfolding cf using q
    by (simp add: duplicate_check_def fn count_rows_def)
       (simp add: sample_padded_def sample_report_def clean_db_def sample_store_def)
  have c: "fst (create_issue_report ?env ?d ?form)
       = Inr (Duplicate 1 ''Pothole on Main Street'' ''pothole '' ''reported'' 10 20 0 0)"
    unfolding create_issue_report_checked [OF ct sz co] dc by (simp add: Let_def)
  show ?thesis using a b c by blast
qed

text \<open>
  Claim C8. The duplicate detector fails open: when the scan raises (the candidate query, or
  a count query after a duplicate was found), the failure is logged and creation goes on as
  it would without a duplicate; the response is never a duplicate answer, and when the
  remaining steps succeed the report is created and stored.
\<close>

theorem duplicate_detection_fails_open:
  assumes ct: "image_content_type form = Some t" "startswith t ''image/''"
    and sz: "image_size form \<le> 10 * 1024 * 1024"
    and co: "final_coordinates env form = (Some la, Some lo)"
    and fail: "scan_query_raises env
               \<or> (find_nearest env (session d) (category_form form) la lo \<noteq> None \<and> count_query_raises env)"
  shows "fst (create_issue_report env d form) = fst (continue_creation env d form la lo)
       \<and> fst (snd (create_issue_report env d form)) = fst (snd (continue_creation env d form la lo))
       \<and> DuplicateDetectionFailed \<in> set (snd (snd (create_issue_report env d form)))
       \<and> (\<forall>a b c e f g h i. fst (create_issue_report env d form) \<noteq> Inr (Duplicate a b c e f g h i))
       \<and> (report_create_valid (report_data_of env form la lo) \<and> create_commit_ok env \<longrightarrow>
            fst (create_issue_report env d form)
              = Inr (Created (next_report_id (session d)) (title_in (report_data_of env form la lo))
                       ''pending'' la lo)
            \<and> get_report (committed (fst (snd (create_issue_report env d form))))
                 (next_report_id (session d)) \<noteq> None)"
proof -
  have dc: "duplicate_check env (session d) (category_form form) la lo = Raised"
    using fail by (auto simp: duplicate_check_def split: option.splits)
  have unf: "create_issue_report env d form =
     (case continue_creation env d form la lo of
        (res, d1, log1) \<Rightarrow>
          (res, d1, (if image_exif env = Raised then [ExifExtractionFailed] else [])
                     @ [DuplicateDetectionFailed] @ log1))"
    unfolding create_issue_report_checked [OF ct sz co] dc by (simp add: Let_def)
  have a: "fst (create_issue_report env d form) = fst (continue_creation env d form la lo)"
    and b: "fst (snd (create_issue_report env d form)) = fst (snd (continue_creation env d form la lo))"
    and c: "DuplicateDetectionFailed \<in> set (snd (snd (create_issue_report env d form)))"
    unfolding unf by (simp_all split: prod.splits)
  show ?thesis
    using a b c continue_creation_not_duplicate [of env d form la lo]
      continue_creation_success [of env form la lo d]
    by simp
qed

text \<open>A failing candidate query, with a duplicate present in the store.\<close>

theorem duplicate_detection_fails_open_witness:
  "scan_query_raises (sample_create_env True)
   \<and> fst (create_issue_report (sample_create_env True)
            (clean_db (sample_store [sample_report 1 ''reported''])) (sample_form ''Pothole''))
       = Inr (Created 100 ''Hole in the road'' ''pending'' 10 20)
   \<and> DuplicateDetectionFailed \<in> set (snd (snd (create_issue_report (sample_create_env True)
            (clean_db (sample_store [sample_report 1 ''reported''])) (sample_form ''Pothole''))))"
proof -
  let ?env = "sample_create_env True"
  let ?d = "clean_db (sample_store [sample_report 1 ''reported''])"
  let ?form = "sample_form ''Pothole''"
  have ct: "image_content_type ?form = Some ''image/jpeg''" "startswith ''image/jpeg'' ''image/''"
    by (simp_all add: sample_form_def startswith_def)
  have sz: "image_size ?form \<le> 10 * 1024 * 1024" by (simp add: sample_form_def)
  have co: "final_coordinates ?env ?form = (Some 10, Some 20)"
    by (simp add: final_coordinates_def sample_create_env_def sample_form_def gps_data_of_def)
  have fl: "scan_query_raises ?env" by (simp add: sample_create_env_def)
  then have fail: "scan_query_raises ?env
               \<or> (find_nearest ?env (session ?d) (category_form ?form) 10 20 \<noteq> None \<and> count_query_raises ?env)"
    by simp
  have rd: "report_data_of ?env ?form 10 20 =
      \<lparr>title_in = ''Hole in the road'', description_in = None, category_in = ''Pothole'',
       image_url_in = Some ''/uploads/2025/01/01/b.jpg'', latitude_in = 10, longitude_in = 20\<rparr>"
    by (simp add: report_data_of_def summary_fields_def sample_create_env_def sample_form_def
          upload_image_to_storage_def)
  have v: "report_create_valid (report_data_of ?env ?form 10 20) \<and> create_commit_ok ?env"
    by (simp add: rd report_create_valid_def) (simp add: sample_create_env_def)
  have n: "next_report_id (session ?d) = 100" by (simp add: sample_defs)
  from duplicate_detection_fails_open [OF ct sz co fail] v
  have a: "fst (create_issue_report ?env ?d ?form)
              = Inr (Created (next_report_id (session ?d)) (title_in (report_data_of ?env ?form 10 20))
                       ''pending'' 10 20)"
    and b: "DuplicateDetectionFailed \<in> set (snd (snd (create_issue_report ?env ?d ?form)))"
    by blast+
  have a': "fst (create_issue_report ?env ?d ?form)
              = Inr (Created 100 ''Hole in the road'' ''pending'' 10 20)"
    using a unfolding rd n by simp
  show ?thesis using fl a' b by blast
qed

end
